theory Spec2Isabelle
  imports Complex_Main "HOL-Library.AList" "HOL-Library.Char_ord" "HOL-Library.List_Lexorder"
begin

section \<open>Tensors, errors and numeric primitives\<close>

text \<open>
  The model of \<^verbatim>\<open>luke/model.py\<close>. A tensor is a nested list in row-major order: a
  vector of features is a \<open>vec\<close>, a (sequence, hidden) matrix is a \<open>mat\<close>, and a
  (batch, sequence, hidden) tensor is a list of matrices. Tensor entries are real numbers:
  the arithmetic of the source is read as exact arithmetic, rounding is not part of the model.
  Integer tensors (ids, labels, masks) are lists of \<open>int\<close>.

  Python and torch failures are values of \<open>error\<close>: a call that cannot bind its
  arguments or that receives \<open>None\<close> where a tensor is needed is a \<open>TypeError\<close>, an
  embedding lookup or a list index out of range is an \<open>IndexError\<close>, a missing
  dictionary key is a \<open>KeyError\<close>, and a
  \<^verbatim>\<open>torch.cat\<close> of tensors with different batch sizes is a \<open>RuntimeError\<close>.
  Elementwise arithmetic between tensors of different widths also raises in torch; the
  functions below use \<open>zip\<close> there, and every statement about them fixes the widths.
  \<open>NonFinite\<close> is no exception of Python: it marks a tensor with an entry that is NaN or
  infinite, which no real number stands for, where such an entry would enter the exact
  arithmetic of the rest of the model.
\<close>

type_synonym vec = "real list"
type_synonym mat = "real list list"

datatype error =
  TypeError | IndexError | KeyError | RuntimeError | AttributeError | ValueError | NonFinite

fun traverse :: "('a \<Rightarrow> error + 'b) \<Rightarrow> 'a list \<Rightarrow> error + 'b list" where
  "traverse f [] = Inr []"
| "traverse f (x # xs) =
     (case f x of
        Inl e \<Rightarrow> Inl e
      | Inr y \<Rightarrow> (case traverse f xs of Inl e \<Rightarrow> Inl e | Inr ys \<Rightarrow> Inr (y # ys)))"

text \<open>
  \<^verbatim>\<open>gelu(x) = x * 0.5 * (1.0 + torch.erf(x / math.sqrt(2.0)))\<close>. The error function is
  torch's; it is a parameter of the model.
\<close>

definition gelu :: "(real \<Rightarrow> real) \<Rightarrow> real \<Rightarrow> real" where
  "gelu erf x = x * (1 / 2) * (1 + erf (x / sqrt 2))"

text \<open>\<^verbatim>\<open>nn.Dropout\<close> in evaluation mode returns its input.\<close>

definition dropout :: "real \<Rightarrow> 'a \<Rightarrow> 'a" where
  "dropout p x = x"

definition dot :: "vec \<Rightarrow> vec \<Rightarrow> real" where
  "dot a b = sum_list (map2 (*) a b)"

definition vadd :: "vec \<Rightarrow> vec \<Rightarrow> vec" where
  "vadd a b = map2 (+) a b"

text \<open>\<^verbatim>\<open>x.mean(-1)\<close> of one last-dimension slice.\<close>

definition mean :: "vec \<Rightarrow> real" where
  "mean x = sum_list x / real (length x)"

text \<open>
  A floating-point division whose divisor may be zero does not raise: \<open>0 / 0\<close> is NaN and
  \<open>x / 0\<close> is an infinity with the sign of \<open>x\<close>. A quotient keeps these values apart from
  the numbers.
\<close>

datatype quotient = Finite real | PosInf | NegInf | NotANumber

definition float_div :: "real \<Rightarrow> real \<Rightarrow> quotient" where
  "float_div x y =
     (if y \<noteq> 0 then Finite (x / y)
      else if x = 0 then NotANumber
      else if 0 < x then PosInf
      else NegInf)"

text \<open>The entries of a tensor of quotients as numbers, when all of them are numbers.\<close>

definition finite_vec :: "quotient list \<Rightarrow> error + vec" where
  "finite_vec qs = traverse (\<lambda>q. case q of Finite x \<Rightarrow> Inr x | _ \<Rightarrow> Inl NonFinite) qs"

subsection \<open>LukeConfig\<close>

record LukeConfig =
  vocab_size :: nat
  entity_vocab_size :: nat
  hidden_size :: nat
  entity_emb_size :: nat
  num_hidden_layers :: nat
  num_attention_heads :: nat
  intermediate_size :: nat
  hidden_dropout_prob :: real
  attention_probs_dropout_prob :: real
  max_position_embeddings :: nat
  type_vocab_size :: nat
  initializer_range :: real

subsection \<open>nn.Linear and nn.Embedding\<close>

text \<open>
  \<^verbatim>\<open>nn.Linear\<close>: the weight has one row per output feature; the bias is absent when
  the layer is built with \<^verbatim>\<open>bias=False\<close>.
\<close>

record Linear =
  lin_weight :: mat
  lin_bias :: "vec option"

definition Linear_forward :: "Linear \<Rightarrow> vec \<Rightarrow> vec" where
  "Linear_forward l x =
     (let y = map (\<lambda>row. dot row x) (lin_weight l)
      in case lin_bias l of None \<Rightarrow> y | Some b \<Rightarrow> vadd y b)"

text \<open>\<^verbatim>\<open>nn.Embedding\<close>: a row lookup, an \<open>IndexError\<close> outside the table.\<close>

definition Embedding_forward :: "mat \<Rightarrow> int \<Rightarrow> error + vec" where
  "Embedding_forward table i =
     (if 0 \<le> i \<and> nat i < length table then Inr (table ! nat i) else Inl IndexError)"

subsection \<open>LayerNorm\<close>

record LayerNorm =
  ln_weight :: vec
  ln_bias :: vec
  variance_epsilon :: real

text \<open>
  Lines 51 to 53 of \<^verbatim>\<open>LayerNorm.forward\<close> on one last-dimension slice: the value of
  \<^verbatim>\<open>x\<close> before the scale and the shift are applied.
\<close>

definition LayerNorm_normalized :: "real \<Rightarrow> vec \<Rightarrow> vec" where
  "LayerNorm_normalized eps x =
     (let u = mean x;
          s = mean (map (\<lambda>a. (a - u) ^ 2) x)
      in map (\<lambda>a. (a - u) / sqrt (s + eps)) x)"

definition LayerNorm_forward :: "LayerNorm \<Rightarrow> vec \<Rightarrow> vec" where
  "LayerNorm_forward lnm x =
     vadd (map2 (*) (ln_weight lnm) (LayerNorm_normalized (variance_epsilon lnm) x))
       (ln_bias lnm)"

text \<open>The constructor: scale one, shift zero, epsilon \<open>1e-12\<close> unless given.\<close>

definition LayerNorm_init :: "nat \<Rightarrow> real \<Rightarrow> LayerNorm" where
  "LayerNorm_init n eps =
     \<lparr>ln_weight = replicate n 1, ln_bias = replicate n 0, variance_epsilon = eps\<rparr>"

text \<open>The forward pass on a (batch, sequence, hidden) tensor: every slice on its own.\<close>

definition LayerNorm_forward3 :: "LayerNorm \<Rightarrow> mat list \<Rightarrow> mat list" where
  "LayerNorm_forward3 lnm t = map (map (LayerNorm_forward lnm)) t"

text \<open>The biased variance of a slice, as line 52 computes it.\<close>

definition variance :: "vec \<Rightarrow> real" where
  "variance x = mean (map (\<lambda>a. (a - mean x) ^ 2) x)"

subsection \<open>WordEmbeddings\<close>

record WordEmbeddings =
  we_word_embeddings :: mat
  we_position_embeddings :: mat
  we_token_type_embeddings :: mat
  we_LayerNorm :: LayerNorm
  we_dropout :: real

text \<open>
  One row of the batch: \<open>input_ids\<close> and \<open>token_type_ids\<close> of one example. The position
  ids are \<open>0 .. seq_length - 1\<close>.
\<close>

definition WordEmbeddings_forward_row :: "WordEmbeddings \<Rightarrow> int list \<Rightarrow> int list \<Rightarrow> error + mat" where
  "WordEmbeddings_forward_row emb input_ids token_type_ids =
     (let seq_length = length input_ids;
          position_ids = map int [0..<seq_length]
      in case traverse (Embedding_forward (we_word_embeddings emb)) input_ids of
           Inl e \<Rightarrow> Inl e
         | Inr words_embeddings \<Rightarrow>
       (case traverse (Embedding_forward (we_position_embeddings emb)) position_ids of
           Inl e \<Rightarrow> Inl e
         | Inr position_embeddings \<Rightarrow>
       (case traverse (Embedding_forward (we_token_type_embeddings emb)) token_type_ids of
           Inl e \<Rightarrow> Inl e
         | Inr token_type_embeddings \<Rightarrow>
           Inr (map (\<lambda>v. dropout (we_dropout emb) (LayerNorm_forward (we_LayerNorm emb) v))
                  (map2 vadd (map2 vadd words_embeddings position_embeddings)
                     token_type_embeddings)))))"

definition WordEmbeddings_forward ::
  "WordEmbeddings \<Rightarrow> int list list \<Rightarrow> int list list option \<Rightarrow> error + mat list" where
  "WordEmbeddings_forward emb input_ids token_type_ids =
     (let token_type_ids =
            (case token_type_ids of None \<Rightarrow> map (map (\<lambda>_. 0)) input_ids | Some t \<Rightarrow> t)
      in traverse (\<lambda>(ids, tts). WordEmbeddings_forward_row emb ids tts)
           (zip input_ids token_type_ids))"

subsection \<open>EntityEmbeddings\<close>

record EntityEmbeddings =
  ee_config :: LukeConfig
  ee_entity_embeddings :: mat
  ee_position_embeddings :: mat
  ee_token_type_embeddings :: mat
  ee_entity_dense :: "Linear option"
  ee_LayerNorm :: LayerNorm
  ee_dropout :: real

text \<open>\<^verbatim>\<open>(position_ids != -1).type_as(position_embeddings)\<close> for the slots of one entity.\<close>

definition validity_mask :: "int list \<Rightarrow> real list" where
  "validity_mask position_ids = map (\<lambda>i. if i \<noteq> - 1 then 1 else 0) position_ids"

text \<open>\<^verbatim>\<open>torch.sum(t, dim=2)\<close> over the slots of one entity: no slot gives the zero vector.\<close>

definition sum_slots :: "nat \<Rightarrow> vec list \<Rightarrow> vec" where
  "sum_slots h vs = foldr vadd vs (replicate h 0)"

text \<open>
  Lines 113 to 118 of \<^verbatim>\<open>EntityEmbeddings.forward\<close> for one entity: the slots'
  position ids are clamped at zero and looked up, every slot is multiplied by its mask
  value, the slots are summed and the sum is divided by the number of valid slots plus
  \<open>1e-12\<close>. The division is the floating-point one: the result is a list of quotients.
  The width \<open>h\<close> is the embedding width of the position table.
\<close>

definition EntityEmbeddings_position_embeddings ::
  "mat \<Rightarrow> nat \<Rightarrow> int list \<Rightarrow> error + quotient list" where
  "EntityEmbeddings_position_embeddings table h position_ids =
     (case traverse (Embedding_forward table) (map (\<lambda>i. max i 0) position_ids) of
        Inl e \<Rightarrow> Inl e
      | Inr position_embeddings \<Rightarrow>
          (let position_embedding_mask = validity_mask position_ids;
               position_embeddings =
                 map2 (\<lambda>v m. map (\<lambda>a. a * m) v) position_embeddings position_embedding_mask;
               position_embeddings = sum_slots h position_embeddings
           in Inr (map (\<lambda>a. float_div a (sum_list position_embedding_mask + 1 / 10 ^ 12))
                     position_embeddings)))"

text \<open>Lines 109 to 111: the entity lookup and, when the widths differ, the projection.\<close>

definition EntityEmbeddings_lookup :: "EntityEmbeddings \<Rightarrow> int list list \<Rightarrow> error + mat list" where
  "EntityEmbeddings_lookup emb entity_ids =
     (case traverse (traverse (Embedding_forward (ee_entity_embeddings emb))) entity_ids of
        Inl e \<Rightarrow> Inl e
      | Inr entity_embeddings \<Rightarrow>
          if entity_emb_size (ee_config emb) \<noteq> hidden_size (ee_config emb)
          then (case ee_entity_dense emb of
                  None \<Rightarrow> Inl AttributeError
                | Some d \<Rightarrow> Inr (map (map (Linear_forward d)) entity_embeddings))
          else Inr entity_embeddings)"

definition EntityEmbeddings_forward ::
  "EntityEmbeddings \<Rightarrow> int list list \<Rightarrow> int list list list \<Rightarrow> int list list option
     \<Rightarrow> error + mat list" where
  "EntityEmbeddings_forward emb entity_ids position_ids token_type_ids =
     (let token_type_ids =
            (case token_type_ids of None \<Rightarrow> map (map (\<lambda>_. 0)) entity_ids | Some t \<Rightarrow> t)
      in case EntityEmbeddings_lookup emb entity_ids of
           Inl e \<Rightarrow> Inl e
         | Inr entity_embeddings \<Rightarrow>
       (case traverse (traverse (EntityEmbeddings_position_embeddings
                (ee_position_embeddings emb) (hidden_size (ee_config emb)))) position_ids of
           Inl e \<Rightarrow> Inl e
         | Inr position_embeddings \<Rightarrow>
       (case traverse (traverse (Embedding_forward (ee_token_type_embeddings emb)))
               token_type_ids of
           Inl e \<Rightarrow> Inl e
         | Inr token_type_embeddings \<Rightarrow>
       (case traverse (traverse finite_vec) position_embeddings of
           Inl e \<Rightarrow> Inl e
         | Inr position_embeddings \<Rightarrow>
           Inr (map (map (\<lambda>v. dropout (ee_dropout emb) (LayerNorm_forward (ee_LayerNorm emb) v)))
                  (map2 (map2 vadd) (map2 (map2 vadd) entity_embeddings position_embeddings)
                     token_type_embeddings))))))"

section \<open>The encoder\<close>

text \<open>
  Every operation of the encoder acts on each example of the batch on its own. The modules
  from \<open>SelfAttention\<close> to \<open>Layer\<close> are modelled on one example: the word stream is a
  (word length, hidden) matrix, the entity stream an (entity length, hidden) matrix and the
  additive attention mask one value per position of the joint sequence. \<open>Encoder\<close> and the
  models above it work on the batch.
\<close>

subsection \<open>SelfAttention\<close>

record SelfAttention =
  sa_num_attention_heads :: nat
  sa_attention_head_size :: nat
  sa_all_head_size :: nat
  sa_query :: Linear
  sa_key :: Linear
  sa_value :: Linear
  sa_dropout :: real

text \<open>
  \<^verbatim>\<open>x.view(.., heads, head_size).permute(0, 2, 1, 3)\<close>: one (sequence, head size) matrix per
  head, the head \<open>h\<close> reading the features \<open>h * head_size ..< (h + 1) * head_size\<close>.
\<close>

definition transpose_for_scores :: "SelfAttention \<Rightarrow> mat \<Rightarrow> mat list" where
  "transpose_for_scores sa x =
     map (\<lambda>h. map (\<lambda>row. take (sa_attention_head_size sa)
                          (drop (h * sa_attention_head_size sa) row)) x)
       [0..<sa_num_attention_heads sa]"

text \<open>\<^verbatim>\<open>nn.Softmax(dim=-1)\<close> on one row of scores.\<close>

definition softmax :: "vec \<Rightarrow> vec" where
  "softmax xs = map (\<lambda>x. exp x / sum_list (map exp xs)) xs"

text \<open>
  Lines 149 to 173 on the joint sequence \<open>hidden_states\<close>: the scaled scores of every head
  (one row per query position, one column per key position), the scores with the mask
  added, the probabilities, and the context layer, one row of width \<open>all_head_size\<close> per
  position of the joint sequence.
\<close>

definition scaled_attention_scores :: "SelfAttention \<Rightarrow> mat \<Rightarrow> mat list" where
  "scaled_attention_scores sa hidden_states =
     (let mixed_query_layer = map (Linear_forward (sa_query sa)) hidden_states;
          mixed_key_layer = map (Linear_forward (sa_key sa)) hidden_states;
          query_layer = transpose_for_scores sa mixed_query_layer;
          key_layer = transpose_for_scores sa mixed_key_layer;
          attention_scores =
            map2 (\<lambda>q k. map (\<lambda>qi. map (\<lambda>kj. dot qi kj) k) q) query_layer key_layer
      in map (map (map (\<lambda>a. a / sqrt (real (sa_attention_head_size sa))))) attention_scores)"

definition attention_scores :: "SelfAttention \<Rightarrow> mat \<Rightarrow> vec \<Rightarrow> mat list" where
  "attention_scores sa hidden_states attention_mask =
     map (map (\<lambda>row. vadd row attention_mask)) (scaled_attention_scores sa hidden_states)"

definition attention_probs :: "SelfAttention \<Rightarrow> mat \<Rightarrow> vec \<Rightarrow> mat list" where
  "attention_probs sa hidden_states attention_mask =
     map (map (\<lambda>row. dropout (sa_dropout sa) (softmax row)))
       (attention_scores sa hidden_states attention_mask)"

definition context_layer :: "SelfAttention \<Rightarrow> mat \<Rightarrow> vec \<Rightarrow> mat" where
  "context_layer sa hidden_states attention_mask =
     (let mixed_value_layer = map (Linear_forward (sa_value sa)) hidden_states;
          value_layer = transpose_for_scores sa mixed_value_layer;
          probs = attention_probs sa hidden_states attention_mask;
          context =
            map2 (\<lambda>p v. map (\<lambda>p_i. map (\<lambda>d. sum_list (map2 (\<lambda>p_ij v_j. p_ij * v_j ! d) p_i v))
                                   [0..<sa_attention_head_size sa]) p)
              probs value_layer
      in map (\<lambda>i. concat (map (\<lambda>c. c ! i) context)) [0..<length hidden_states])"

definition SelfAttention_forward :: "SelfAttention \<Rightarrow> mat \<Rightarrow> mat \<Rightarrow> vec \<Rightarrow> mat \<times> mat" where
  "SelfAttention_forward sa word_hidden_states entity_hidden_states attention_mask =
     (let hidden_states = word_hidden_states @ entity_hidden_states;
          context = context_layer sa hidden_states attention_mask;
          word_seq_size = length word_hidden_states;
          word_context_layer = take word_seq_size context;
          entity_context_layer = drop word_seq_size context
      in (word_context_layer, entity_context_layer))"

subsection \<open>SelfOutput, Attention, Intermediate, Output, Layer\<close>

record SelfOutput =
  so_dense :: Linear
  so_LayerNorm :: LayerNorm
  so_dropout :: real

definition SelfOutput_forward :: "SelfOutput \<Rightarrow> mat \<Rightarrow> mat \<Rightarrow> mat" where
  "SelfOutput_forward m hidden_states input_tensor =
     map2 (\<lambda>h i. LayerNorm_forward (so_LayerNorm m)
                   (vadd (dropout (so_dropout m) (Linear_forward (so_dense m) h)) i))
       hidden_states input_tensor"

record Attention =
  att_self :: SelfAttention
  att_output :: SelfOutput

definition Attention_forward :: "Attention \<Rightarrow> mat \<Rightarrow> mat \<Rightarrow> vec \<Rightarrow> mat \<times> mat" where
  "Attention_forward m word_hidden_states entity_hidden_states attention_mask =
     (let (word_self_output, entity_self_output) =
            SelfAttention_forward (att_self m) word_hidden_states entity_hidden_states
              attention_mask;
          word_output = SelfOutput_forward (att_output m) word_self_output word_hidden_states;
          entity_output =
            SelfOutput_forward (att_output m) entity_self_output entity_hidden_states
      in (word_output, entity_output))"

record Intermediate =
  im_dense :: Linear

definition Intermediate_forward :: "(real \<Rightarrow> real) \<Rightarrow> Intermediate \<Rightarrow> mat \<Rightarrow> mat" where
  "Intermediate_forward erf m hidden_states =
     map (\<lambda>h. map (gelu erf) (Linear_forward (im_dense m) h)) hidden_states"

record Output =
  out_dense :: Linear
  out_LayerNorm :: LayerNorm
  out_dropout :: real

definition Output_forward :: "Output \<Rightarrow> mat \<Rightarrow> mat \<Rightarrow> mat" where
  "Output_forward m hidden_states input_tensor =
     map2 (\<lambda>h i. LayerNorm_forward (out_LayerNorm m)
                   (vadd (dropout (out_dropout m) (Linear_forward (out_dense m) h)) i))
       hidden_states input_tensor"

record Layer =
  ly_attention :: Attention
  ly_intermediate :: Intermediate
  ly_output :: Output

definition Layer_forward :: "(real \<Rightarrow> real) \<Rightarrow> Layer \<Rightarrow> mat \<Rightarrow> mat \<Rightarrow> vec \<Rightarrow> mat \<times> mat" where
  "Layer_forward erf m word_hidden_states entity_hidden_states attention_mask =
     (let (word_attention_output, entity_attention_output) =
            Attention_forward (ly_attention m) word_hidden_states entity_hidden_states
              attention_mask;
          word_intermediate_output =
            Intermediate_forward erf (ly_intermediate m) word_attention_output;
          entity_intermediate_output =
            Intermediate_forward erf (ly_intermediate m) entity_attention_output;
          word_layer_output =
            Output_forward (ly_output m) word_intermediate_output word_attention_output;
          entity_layer_output =
            Output_forward (ly_output m) entity_intermediate_output entity_attention_output
      in (word_layer_output, entity_layer_output))"

text \<open>The layer on a batch: one example after the other.\<close>

definition Layer_forward_batch ::
  "(real \<Rightarrow> real) \<Rightarrow> Layer \<Rightarrow> mat list \<Rightarrow> mat list \<Rightarrow> vec list \<Rightarrow> mat list \<times> mat list" where
  "Layer_forward_batch erf m word_hidden_states entity_hidden_states attention_mask =
     (let outs = map (\<lambda>(w, e, a). Layer_forward erf m w e a)
                   (zip word_hidden_states (zip entity_hidden_states attention_mask))
      in (map fst outs, map snd outs))"

subsection \<open>Encoder\<close>

text \<open>
  \<^verbatim>\<open>Encoder.forward\<close>: the loop over \<^verbatim>\<open>self.layer\<close> with the list
  \<^verbatim>\<open>all_encoder_layers\<close> as accumulator, and the statement after the loop.
\<close>

fun Encoder_loop ::
  "(real \<Rightarrow> real) \<Rightarrow> Layer list \<Rightarrow> mat list \<Rightarrow> mat list \<Rightarrow> vec list \<Rightarrow> bool
     \<Rightarrow> (mat list \<times> mat list) list
     \<Rightarrow> (mat list \<times> mat list) \<times> (mat list \<times> mat list) list" where
  "Encoder_loop erf [] word_hidden_states entity_hidden_states attention_mask
     output_all_encoded_layers all_encoder_layers =
     ((word_hidden_states, entity_hidden_states), all_encoder_layers)"
| "Encoder_loop erf (layer_module # rest) word_hidden_states entity_hidden_states attention_mask
     output_all_encoded_layers all_encoder_layers =
     (let (word_hidden_states, entity_hidden_states) =
            Layer_forward_batch erf layer_module word_hidden_states entity_hidden_states
              attention_mask
      in Encoder_loop erf rest word_hidden_states entity_hidden_states attention_mask
           output_all_encoded_layers
           (if output_all_encoded_layers
            then all_encoder_layers @ [(word_hidden_states, entity_hidden_states)]
            else all_encoder_layers))"

definition Encoder_forward ::
  "(real \<Rightarrow> real) \<Rightarrow> Layer list \<Rightarrow> mat list \<Rightarrow> mat list \<Rightarrow> vec list \<Rightarrow> bool
     \<Rightarrow> (mat list \<times> mat list) list" where
  "Encoder_forward erf layer word_hidden_states entity_hidden_states attention_mask
     output_all_encoded_layers =
     (let ((word_hidden_states, entity_hidden_states), all_encoder_layers) =
            Encoder_loop erf layer word_hidden_states entity_hidden_states attention_mask
              output_all_encoded_layers []
      in if \<not> output_all_encoded_layers
         then all_encoder_layers @ [(word_hidden_states, entity_hidden_states)]
         else all_encoder_layers)"

subsection \<open>Pooler\<close>

record Pooler =
  po_dense :: Linear

text \<open>
  \<^verbatim>\<open>word_hidden_states[:, 0]\<close> is an \<open>IndexError\<close> when the word sequence is empty.
\<close>

definition Pooler_forward :: "Pooler \<Rightarrow> mat list \<Rightarrow> error + vec list" where
  "Pooler_forward m word_hidden_states =
     traverse (\<lambda>example. case example of
                   [] \<Rightarrow> Inl IndexError
                 | pooled_output # _ \<Rightarrow> Inr (map tanh (Linear_forward (po_dense m) pooled_output)))
       word_hidden_states"

section \<open>Prediction heads\<close>

record PredictionHeadTransform =
  pt_dense :: Linear
  pt_LayerNorm :: LayerNorm

definition PredictionHeadTransform_forward ::
  "(real \<Rightarrow> real) \<Rightarrow> PredictionHeadTransform \<Rightarrow> mat \<Rightarrow> mat" where
  "PredictionHeadTransform_forward erf m hidden_states =
     map (\<lambda>h. LayerNorm_forward (pt_LayerNorm m) (map (gelu erf) (Linear_forward (pt_dense m) h)))
       hidden_states"

text \<open>
  \<open>LMPredictionHead\<close> and \<open>EntityPredictionHead\<close>: the decoder is a linear layer without
  bias whose weight is the embedding matrix handed to the constructor
  (\<^verbatim>\<open>self.decoder.weight = word_embedding_weights\<close>), so the head owns the transform and
  the output bias only and its forward pass reads the embedding matrix of the model.
\<close>

record PredictionHead =
  ph_transform :: PredictionHeadTransform
  ph_bias :: vec

definition PredictionHead_forward ::
  "(real \<Rightarrow> real) \<Rightarrow> PredictionHead \<Rightarrow> mat \<Rightarrow> mat \<Rightarrow> mat" where
  "PredictionHead_forward erf m embedding_weights hidden_states =
     map (\<lambda>h. vadd (Linear_forward \<lparr>lin_weight = embedding_weights, lin_bias = None\<rparr> h)
                 (ph_bias m))
       (PredictionHeadTransform_forward erf (ph_transform m) hidden_states)"

record BertPreTrainingHeads =
  cls_predictions :: PredictionHead
  cls_seq_relationship :: Linear

section \<open>LukeModel\<close>

record LukeModel =
  lm_config :: LukeConfig
  lm_encoder :: "Layer list"
  lm_pooler :: Pooler
  lm_embeddings :: WordEmbeddings
  lm_entity_embeddings :: EntityEmbeddings

text \<open>
  \<^verbatim>\<open>torch.cat([a, b], dim=1)\<close> of two (batch, length) tensors: a \<open>RuntimeError\<close> when the
  batch sizes differ.
\<close>

definition cat_dim1 :: "'a list list \<Rightarrow> 'a list list \<Rightarrow> error + 'a list list" where
  "cat_dim1 a b = (if length a \<noteq> length b then Inl RuntimeError else Inr (map2 (@) a b))"

text \<open>
  Lines 363 to 366: the joint mask, converted to the parameters' floating type and to the
  additive bias \<^verbatim>\<open>(1.0 - mask) * -10000.0\<close>. The two inserted axes of size one are the
  broadcast over heads and query positions: the model keeps one value per example and key
  position. \<open>None\<close> for either mask is a \<open>TypeError\<close> of \<^verbatim>\<open>torch.cat\<close>.
\<close>

definition LukeModel_attention_mask ::
  "int list list option \<Rightarrow> int list list option \<Rightarrow> error + vec list" where
  "LukeModel_attention_mask word_attention_mask entity_attention_mask =
     (case (word_attention_mask, entity_attention_mask) of
        (Some w, Some e) \<Rightarrow>
          (case cat_dim1 w e of
             Inl err \<Rightarrow> Inl err
           | Inr attention_mask \<Rightarrow>
               Inr (map (map (\<lambda>m. (1 - real_of_int m) * (- 10000))) attention_mask))
      | _ \<Rightarrow> Inl TypeError)"

text \<open>
  The value \<^verbatim>\<open>LukeModel.forward\<close> returns first: the list of all layers' pairs, or the
  last pair alone when \<^verbatim>\<open>output_all_encoded_layers\<close> is false.
\<close>

datatype encoded_layers =
  AllLayers "(mat list \<times> mat list) list"
| LastLayer "mat list \<times> mat list"

text \<open>
  \<^verbatim>\<open>LukeModel.forward\<close>. Every tensor argument may be \<open>None\<close>; only the two segment-id
  arguments are allowed to be (the embeddings replace them by zeros), a \<open>None\<close> elsewhere
  raises where the source first uses the argument.
\<close>

definition LukeModel_forward ::
  "(real \<Rightarrow> real) \<Rightarrow> LukeModel \<Rightarrow> int list list option \<Rightarrow> int list list option
     \<Rightarrow> int list list option \<Rightarrow> int list list option \<Rightarrow> int list list list option
     \<Rightarrow> int list list option \<Rightarrow> int list list option \<Rightarrow> bool
     \<Rightarrow> error + (encoded_layers \<times> vec list)" where
  "LukeModel_forward erf m word_ids word_segment_ids word_attention_mask entity_ids
     entity_position_ids entity_segment_ids entity_attention_mask output_all_encoded_layers =
     (case LukeModel_attention_mask word_attention_mask entity_attention_mask of
        Inl e \<Rightarrow> Inl e
      | Inr extended_attention_mask \<Rightarrow>
     (case (case word_ids of
              None \<Rightarrow> Inl AttributeError
            | Some ids \<Rightarrow> WordEmbeddings_forward (lm_embeddings m) ids word_segment_ids) of
        Inl e \<Rightarrow> Inl e
      | Inr word_embedding_output \<Rightarrow>
     (case (case (entity_ids, entity_position_ids) of
              (None, _) \<Rightarrow> Inl TypeError
            | (Some ids, None) \<Rightarrow>
                (case EntityEmbeddings_lookup (lm_entity_embeddings m) ids of
                   Inl e \<Rightarrow> Inl e
                 | Inr _ \<Rightarrow> Inl AttributeError)
            | (Some ids, Some pos) \<Rightarrow>
                EntityEmbeddings_forward (lm_entity_embeddings m) ids pos entity_segment_ids) of
        Inl e \<Rightarrow> Inl e
      | Inr entity_embedding_output \<Rightarrow>
          (let encoded_layers =
                 Encoder_forward erf (lm_encoder m) word_embedding_output
                   entity_embedding_output extended_attention_mask output_all_encoded_layers
           in if encoded_layers = [] then Inl IndexError
              else (case Pooler_forward (lm_pooler m) (fst (last encoded_layers)) of
                      Inl e \<Rightarrow> Inl e
                    | Inr pooled_output \<Rightarrow>
                        Inr (if \<not> output_all_encoded_layers
                             then LastLayer (last encoded_layers)
                             else AllLayers encoded_layers, pooled_output))))))"

section \<open>LukePretrainingModel\<close>

record LukePretrainingModel =
  pm_base :: LukeModel
  pm_cls :: BertPreTrainingHeads
  pm_entity_predictions :: PredictionHead

subsection \<open>Selecting the masked positions\<close>

text \<open>
  \<^verbatim>\<open>torch.masked_select(t, mask.unsqueeze(-1))\<close> on a (batch, length, hidden) tensor: the
  entries of the rows whose mask is true, flattened in row-major order; and
  \<^verbatim>\<open>torch.masked_select(labels, mask)\<close> on a (batch, length) tensor.
\<close>

definition masked_select_rows :: "mat list \<Rightarrow> bool list list \<Rightarrow> real list" where
  "masked_select_rows t msk =
     concat (map2 (\<lambda>example ms. concat (map2 (\<lambda>row b. if b then row else []) example ms))
               t msk)"

definition masked_select :: "int list list \<Rightarrow> bool list list \<Rightarrow> int list" where
  "masked_select t msk =
     concat (map2 (\<lambda>example ms. concat (map2 (\<lambda>x b. if b then [x] else []) example ms))
               t msk)"

text \<open>
  \<^verbatim>\<open>.view(-1, n)\<close> of a flat tensor: rows of width \<open>n\<close>; a \<open>RuntimeError\<close> when \<open>n\<close> is
  zero or does not divide the number of entries.
\<close>

definition view_rows :: "nat \<Rightarrow> 'a list \<Rightarrow> error + 'a list list" where
  "view_rows n flat =
     (if n = 0 \<or> length flat mod n \<noteq> 0 then Inl RuntimeError
      else Inr (map (\<lambda>i. take n (drop (i * n) flat)) [0..<length flat div n]))"

subsection \<open>CrossEntropyLoss\<close>

text \<open>
  A loss is a floating-point scalar. The mean over no term at all is \<open>0 / 0\<close>, which torch
  returns as NaN: the value \<open>NaN\<close> stands for it, and it absorbs every addition.
\<close>

datatype loss_value = NaN | Val real

fun loss_add :: "loss_value \<Rightarrow> loss_value \<Rightarrow> loss_value" where
  "loss_add (Val a) (Val b) = Val (a + b)"
| "loss_add _ _ = NaN"

text \<open>
  \<^verbatim>\<open>CrossEntropyLoss(ignore_index)\<close> with the default mean reduction: the mean, over the
  rows whose target is not \<open>ignore_index\<close>, of minus the logarithm of the softmax
  probability of the target. Different numbers of rows and targets are a \<open>ValueError\<close>, a
  target outside the columns an \<open>IndexError\<close>.
\<close>

definition CrossEntropyLoss :: "int \<Rightarrow> mat \<Rightarrow> int list \<Rightarrow> error + loss_value" where
  "CrossEntropyLoss ignore_index scores labels =
     (if length scores \<noteq> length labels then Inl ValueError
      else if list_ex (\<lambda>(row, t). t \<noteq> ignore_index \<and> \<not> (0 \<le> t \<and> nat t < length row))
                (zip scores labels)
      then Inl IndexError
      else (let terms = map (\<lambda>(row, t). - ln (softmax row ! nat t))
                          (filter (\<lambda>(row, t). t \<noteq> ignore_index) (zip scores labels))
            in if terms = [] then Inr NaN
               else Inr (Val (sum_list terms / real (length terms)))))"

text \<open>\<^verbatim>\<open>torch.argmax(scores, 1)\<close> of one row: the first index of a maximal value.\<close>

definition argmax :: "vec \<Rightarrow> int" where
  "argmax row = int (length (takeWhile (\<lambda>x. x \<noteq> Max (set row)) row))"

definition correct_count :: "mat \<Rightarrow> int list \<Rightarrow> int" where
  "correct_count scores labels =
     int (length (filter (\<lambda>(row, t). argmax row = t) (zip scores labels)))"

subsection \<open>The returned mapping\<close>

text \<open>
  \<^verbatim>\<open>ret\<close> is a dictionary whose values are \<open>None\<close> or references to scalar tensors. The
  tensors live in a heap, so that the assignment \<^verbatim>\<open>ret['loss'] = ret['masked_entity_loss']\<close>
  stores a second reference to one tensor and \<^verbatim>\<open>ret['loss'] += x\<close>, which is the in-place
  addition of \<^verbatim>\<open>torch.Tensor\<close>, writes through it.
\<close>

datatype pyval = PyNone | Ref nat

datatype scalar = FloatT loss_value | LongT int

record ret_state =
  rs_dict :: "(string \<times> pyval) list"
  rs_heap :: "scalar list"

definition dict_set :: "ret_state \<Rightarrow> string \<Rightarrow> pyval \<Rightarrow> ret_state" where
  "dict_set st k v = st\<lparr>rs_dict := AList.update k v (rs_dict st)\<rparr>"

definition dict_get :: "ret_state \<Rightarrow> string \<Rightarrow> pyval option" where
  "dict_get st k = map_of (rs_dict st) k"

text \<open>\<^verbatim>\<open>ret[k] = <a tensor just computed>\<close>: the tensor is a new object.\<close>

definition ret_new :: "ret_state \<Rightarrow> string \<Rightarrow> scalar \<Rightarrow> ret_state" where
  "ret_new st k v =
     dict_set (st\<lparr>rs_heap := rs_heap st @ [v]\<rparr>) k (Ref (length (rs_heap st)))"

text \<open>\<^verbatim>\<open>ret[k] = ret[k']\<close>: the same object under a second key.\<close>

definition ret_assign :: "ret_state \<Rightarrow> string \<Rightarrow> string \<Rightarrow> error + ret_state" where
  "ret_assign st k k' =
     (case dict_get st k' of None \<Rightarrow> Inl KeyError | Some v \<Rightarrow> Inr (dict_set st k v))"

definition scalar_add :: "scalar \<Rightarrow> scalar \<Rightarrow> scalar" where
  "scalar_add a b =
     (case (a, b) of
        (FloatT x, FloatT y) \<Rightarrow> FloatT (loss_add x y)
      | (FloatT x, LongT j) \<Rightarrow> FloatT (loss_add x (Val (real_of_int j)))
      | (LongT i, FloatT y) \<Rightarrow> FloatT (loss_add (Val (real_of_int i)) y)
      | (LongT i, LongT j) \<Rightarrow> LongT (i + j))"

text \<open>
  \<^verbatim>\<open>ret[k] += ret[k']\<close> on a tensor: the object under \<open>k\<close> is updated in place and stored
  back under \<open>k\<close>. On \<open>None\<close> the addition is a \<open>TypeError\<close>.
\<close>

definition ret_iadd :: "ret_state \<Rightarrow> string \<Rightarrow> string \<Rightarrow> error + ret_state" where
  "ret_iadd st k k' =
     (case (dict_get st k, dict_get st k') of
        (Some (Ref a), Some (Ref b)) \<Rightarrow>
          Inr (st\<lparr>rs_heap := (rs_heap st)[a := scalar_add (rs_heap st ! a) (rs_heap st ! b)]\<rparr>)
      | (Some _, Some _) \<Rightarrow> Inl TypeError
      | _ \<Rightarrow> Inl KeyError)"

text \<open>
  Reading an entry of the result: \<open>None\<close> when the key is absent, \<open>Some None\<close> when the
  entry is Python's \<open>None\<close>, and the tensor otherwise.
\<close>

definition ret_lookup :: "ret_state \<Rightarrow> string \<Rightarrow> scalar option option" where
  "ret_lookup st k =
     (case dict_get st k of
        None \<Rightarrow> None
      | Some PyNone \<Rightarrow> Some None
      | Some (Ref a) \<Rightarrow> Some (Some (rs_heap st ! a)))"

text \<open>\<^verbatim>\<open>if ret['loss'] is None: ret['loss'] = ret[k] else: ret['loss'] += ret[k]\<close>.\<close>

definition add_to_loss :: "ret_state \<Rightarrow> string \<Rightarrow> error + ret_state" where
  "add_to_loss st k =
     (if dict_get st ''loss'' = Some PyNone then ret_assign st ''loss'' k
      else ret_iadd st ''loss'' k)"

subsection \<open>LukePretrainingModel.forward\<close>

text \<open>
  The masked positions of a stream and their labels (lines 446 to 452 and 460 to 466): the
  mask \<^verbatim>\<open>labels != -1\<close>, the selected hidden states as rows of width
  \<^verbatim>\<open>config.hidden_size\<close>, and the selected labels. A mask of another shape than the
  stream is a \<open>RuntimeError\<close> of \<^verbatim>\<open>masked_select\<close>.
\<close>

definition gather_masked ::
  "nat \<Rightarrow> mat list \<Rightarrow> int list list \<Rightarrow> error + (mat \<times> int list)" where
  "gather_masked hidden sequence_output labels =
     (let msk = map (map (\<lambda>l. l \<noteq> - 1)) labels
      in if map length labels \<noteq> map length sequence_output then Inl RuntimeError
         else (case view_rows hidden (masked_select_rows sequence_output msk) of
                 Inl e \<Rightarrow> Inl e
               | Inr masked_sequence_output \<Rightarrow>
                   Inr (masked_sequence_output, masked_select labels msk)))"

text \<open>
  The scores of a branch: the prediction head on the gathered rows, viewed as rows of the
  vocabulary size.
\<close>

definition branch_scores ::
  "(real \<Rightarrow> real) \<Rightarrow> PredictionHead \<Rightarrow> mat \<Rightarrow> nat \<Rightarrow> mat \<Rightarrow> error + mat" where
  "branch_scores erf head embedding_weights vocab masked_sequence_output =
     view_rows vocab
       (concat (PredictionHead_forward erf head embedding_weights masked_sequence_output))"

text \<open>The loss, the number of correct predictions and the number of labels of a branch.\<close>

definition branch_metrics :: "mat \<Rightarrow> int list \<Rightarrow> error + (loss_value \<times> int \<times> int)" where
  "branch_metrics scores labels =
     (case CrossEntropyLoss (- 1) scores labels of
        Inl e \<Rightarrow> Inl e
      | Inr l \<Rightarrow> Inr (l, correct_count scores labels,
                      int (length (filter (\<lambda>t. t \<noteq> - 1) labels))))"

text \<open>
  A masked-prediction branch, lines 446 to 456 for the entities and 460 to 470 for the
  words: gather, score, measure. The two branches differ in the stream, the labels, the
  head, the embedding matrix the head decodes with and the vocabulary size.
\<close>

definition masked_metrics ::
  "(real \<Rightarrow> real) \<Rightarrow> PredictionHead \<Rightarrow> mat \<Rightarrow> nat \<Rightarrow> nat \<Rightarrow> mat list \<Rightarrow> int list list
     \<Rightarrow> error + (loss_value \<times> int \<times> int)" where
  "masked_metrics erf head embedding_weights vocab hidden sequence_output labels =
     (case gather_masked hidden sequence_output labels of
        Inl e \<Rightarrow> Inl e
      | Inr (masked_sequence_output, masked_labels) \<Rightarrow>
     (case branch_scores erf head embedding_weights vocab masked_sequence_output of
        Inl e \<Rightarrow> Inl e
      | Inr scores \<Rightarrow> branch_metrics scores masked_labels))"

definition masked_entity_metrics ::
  "(real \<Rightarrow> real) \<Rightarrow> LukePretrainingModel \<Rightarrow> mat list \<Rightarrow> int list list
     \<Rightarrow> error + (loss_value \<times> int \<times> int)" where
  "masked_entity_metrics erf m entity_sequence_output masked_entity_labels =
     masked_metrics erf (pm_entity_predictions m)
       (ee_entity_embeddings (lm_entity_embeddings (pm_base m)))
       (entity_vocab_size (lm_config (pm_base m))) (hidden_size (lm_config (pm_base m)))
       entity_sequence_output masked_entity_labels"

definition masked_lm_metrics ::
  "(real \<Rightarrow> real) \<Rightarrow> LukePretrainingModel \<Rightarrow> mat list \<Rightarrow> int list list
     \<Rightarrow> error + (loss_value \<times> int \<times> int)" where
  "masked_lm_metrics erf m word_sequence_output masked_lm_labels =
     masked_metrics erf (cls_predictions (pm_cls m))
       (we_word_embeddings (lm_embeddings (pm_base m)))
       (vocab_size (lm_config (pm_base m))) (hidden_size (lm_config (pm_base m)))
       word_sequence_output masked_lm_labels"

text \<open>
  The next-sentence branch: the loss ignores the label \<open>-1\<close>, and \<^verbatim>\<open>nsp_total\<close> is the
  batch size \<^verbatim>\<open>word_ids.size(0)\<close>.
\<close>

definition nsp_metrics ::
  "LukePretrainingModel \<Rightarrow> vec list \<Rightarrow> int list \<Rightarrow> nat \<Rightarrow> error + (loss_value \<times> int \<times> int)" where
  "nsp_metrics m pooled_output is_random_next batch =
     (let nsp_score = map (Linear_forward (cls_seq_relationship (pm_cls m))) pooled_output
      in case CrossEntropyLoss (- 1) nsp_score is_random_next of
           Inl e \<Rightarrow> Inl e
         | Inr l \<Rightarrow> Inr (l, correct_count nsp_score is_random_next, int batch))"

text \<open>The three entries a branch stores under its prefix.\<close>

definition store_metrics :: "ret_state \<Rightarrow> string \<Rightarrow> loss_value \<times> int \<times> int \<Rightarrow> ret_state" where
  "store_metrics ret prefix r =
     (case r of (l, correct, tot) \<Rightarrow>
        ret_new (ret_new (ret_new ret (prefix @ ''_loss'') (FloatT l))
                   (prefix @ ''_correct'') (LongT correct))
          (prefix @ ''_total'') (LongT tot))"

text \<open>
  The part of \<^verbatim>\<open>LukePretrainingModel.forward\<close> after the call of the base model, lines
  439 to 486, on the pair of final streams and the pooled output.
\<close>

definition pretraining_ret ::
  "(real \<Rightarrow> real) \<Rightarrow> LukePretrainingModel \<Rightarrow> mat list \<Rightarrow> mat list \<Rightarrow> vec list \<Rightarrow> nat
     \<Rightarrow> int list list option \<Rightarrow> int list list option \<Rightarrow> int list option
     \<Rightarrow> error + ret_state" where
  "pretraining_ret erf m word_sequence_output entity_sequence_output pooled_output batch
     masked_entity_labels masked_lm_labels is_random_next =
     (let ret = \<lparr>rs_dict = [(''loss'', PyNone)], rs_heap = []\<rparr>
      in case (case masked_entity_labels of
                 None \<Rightarrow> Inr ret
               | Some labels \<Rightarrow>
                   (case masked_entity_metrics erf m entity_sequence_output labels of
                      Inl e \<Rightarrow> Inl e
                    | Inr r \<Rightarrow>
                        ret_assign (store_metrics ret ''masked_entity'' r) ''loss''
                          ''masked_entity_loss'')) of
           Inl e \<Rightarrow> Inl e
         | Inr ret \<Rightarrow>
       (case (case masked_lm_labels of
                None \<Rightarrow> Inr ret
              | Some labels \<Rightarrow>
                  (case masked_lm_metrics erf m word_sequence_output labels of
                     Inl e \<Rightarrow> Inl e
                   | Inr r \<Rightarrow> add_to_loss (store_metrics ret ''masked_lm'' r) ''masked_lm_loss'')) of
           Inl e \<Rightarrow> Inl e
         | Inr ret \<Rightarrow>
       (case is_random_next of
          None \<Rightarrow> Inr ret
        | Some labels \<Rightarrow>
            (case nsp_metrics m pooled_output labels batch of
               Inl e \<Rightarrow> Inl e
             | Inr r \<Rightarrow> add_to_loss (store_metrics ret ''nsp'' r) ''nsp_loss''))))"

definition LukePretrainingModel_forward ::
  "(real \<Rightarrow> real) \<Rightarrow> LukePretrainingModel \<Rightarrow> int list list option \<Rightarrow> int list list option
     \<Rightarrow> int list list option \<Rightarrow> int list list option \<Rightarrow> int list list list option
     \<Rightarrow> int list list option \<Rightarrow> int list list option
     \<Rightarrow> int list list option \<Rightarrow> int list list option \<Rightarrow> int list option
     \<Rightarrow> error + ret_state" where
  "LukePretrainingModel_forward erf m word_ids word_segment_ids word_attention_mask entity_ids
     entity_position_ids entity_segment_ids entity_attention_mask
     masked_entity_labels masked_lm_labels is_random_next =
     (case LukeModel_forward erf (pm_base m) word_ids word_segment_ids word_attention_mask
             entity_ids entity_position_ids entity_segment_ids entity_attention_mask False of
        Inl e \<Rightarrow> Inl e
      | Inr (AllLayers _, _) \<Rightarrow> Inl TypeError
      | Inr (LastLayer (word_sequence_output, entity_sequence_output), pooled_output) \<Rightarrow>
          pretraining_ret erf m word_sequence_output entity_sequence_output pooled_output
            (case word_ids of None \<Rightarrow> 0 | Some ids \<Rightarrow> length ids)
            masked_entity_labels masked_lm_labels is_random_next)"

section \<open>Modules as objects: parameters in a store\<close>

text \<open>
  The functions above take the parameters of a module as values. Which modules share a
  parameter is a fact about objects: a \<^verbatim>\<open>nn.Parameter\<close> is a tensor object, and two
  attributes may hold the same one. A parameter is therefore an address into a store of
  tensors, and a module is the tree torch keeps: its class, its \<^verbatim>\<open>_parameters\<close> (a name
  maps to a parameter or to \<open>None\<close>) and its \<^verbatim>\<open>_modules\<close>, both in registration order.
\<close>

datatype tensor = T1 vec | T2 mat

fun shape :: "tensor \<Rightarrow> nat list" where
  "shape (T1 v) = [length v]"
| "shape (T2 m) = [length m, (case m of [] \<Rightarrow> 0 | r # _ \<Rightarrow> length r)]"

datatype mclass = KLinear | KEmbedding | KLayerNorm | KOther

datatype module = Module mclass "(string \<times> nat option) list" "(string \<times> module) list"

text \<open>
  The store: the tensors allocated so far, and the number of random fills made so far.
  Random numbers come from \<open>rnd\<close>, a parameter of the constructors: the fill number, the
  row and the column give the entry.
\<close>

record store =
  cells :: "tensor list"
  draws :: nat

definition alloc :: "tensor \<Rightarrow> store \<Rightarrow> nat \<times> store" where
  "alloc t st = (length (cells st), st\<lparr>cells := cells st @ [t]\<rparr>)"

definition random_like :: "(nat \<Rightarrow> nat \<Rightarrow> nat \<Rightarrow> real) \<Rightarrow> nat \<Rightarrow> nat list \<Rightarrow> tensor" where
  "random_like rnd k shp =
     (case shp of
        [n] \<Rightarrow> T1 (map (\<lambda>j. rnd k 0 j) [0..<n])
      | [n, c] \<Rightarrow> T2 (map (\<lambda>i. map (\<lambda>j. rnd k i j) [0..<c]) [0..<n])
      | _ \<Rightarrow> T1 [])"

definition constant_like :: "real \<Rightarrow> nat list \<Rightarrow> tensor" where
  "constant_like c shp =
     (case shp of
        [n] \<Rightarrow> T1 (replicate n c)
      | [n, k] \<Rightarrow> T2 (replicate n (replicate k c))
      | _ \<Rightarrow> T1 [])"

text \<open>A new parameter with random entries, and the in-place fills of an existing one.\<close>

definition alloc_random :: "(nat \<Rightarrow> nat \<Rightarrow> nat \<Rightarrow> real) \<Rightarrow> nat list \<Rightarrow> store \<Rightarrow> nat \<times> store" where
  "alloc_random rnd shp st =
     alloc (random_like rnd (draws st) shp) (st\<lparr>draws := Suc (draws st)\<rparr>)"

definition fill_random :: "(nat \<Rightarrow> nat \<Rightarrow> nat \<Rightarrow> real) \<Rightarrow> nat \<Rightarrow> store \<Rightarrow> store" where
  "fill_random rnd a st =
     st\<lparr>cells := (cells st)[a := random_like rnd (draws st) (shape (cells st ! a))],
        draws := Suc (draws st)\<rparr>"

definition fill_constant :: "real \<Rightarrow> nat \<Rightarrow> store \<Rightarrow> store" where
  "fill_constant c a st =
     st\<lparr>cells := (cells st)[a := constant_like c (shape (cells st ! a))]\<rparr>"

subsection \<open>Constructors\<close>

definition Linear_new ::
  "(nat \<Rightarrow> nat \<Rightarrow> nat \<Rightarrow> real) \<Rightarrow> nat \<Rightarrow> nat \<Rightarrow> bool \<Rightarrow> store \<Rightarrow> module \<times> store" where
  "Linear_new rnd in_features out_features with_bias st =
     (let (w, st) = alloc_random rnd [out_features, in_features] st
      in if with_bias
         then (let (b, st) = alloc_random rnd [out_features] st
               in (Module KLinear [(''weight'', Some w), (''bias'', Some b)] [], st))
         else (Module KLinear [(''weight'', Some w), (''bias'', None)] [], st))"

definition Embedding_new ::
  "(nat \<Rightarrow> nat \<Rightarrow> nat \<Rightarrow> real) \<Rightarrow> nat \<Rightarrow> nat \<Rightarrow> store \<Rightarrow> module \<times> store" where
  "Embedding_new rnd num_embeddings embedding_dim st =
     (let (w, st) = alloc_random rnd [num_embeddings, embedding_dim] st
      in (Module KEmbedding [(''weight'', Some w)] [], st))"

definition LayerNorm_new :: "nat \<Rightarrow> store \<Rightarrow> module \<times> store" where
  "LayerNorm_new n st =
     (let (w, st) = alloc (T1 (replicate n 1)) st;
          (b, st) = alloc (T1 (replicate n 0)) st
      in (Module KLayerNorm [(''weight'', Some w), (''bias'', Some b)] [], st))"

text \<open>\<^verbatim>\<open>nn.Dropout\<close> and \<^verbatim>\<open>nn.Tanh\<close> have no parameter.\<close>

definition Leaf_new :: module where
  "Leaf_new = Module KOther [] []"

definition WordEmbeddings_new ::
  "(nat \<Rightarrow> nat \<Rightarrow> nat \<Rightarrow> real) \<Rightarrow> LukeConfig \<Rightarrow> store \<Rightarrow> module \<times> store" where
  "WordEmbeddings_new rnd config st =
     (let (word_embeddings, st) = Embedding_new rnd (vocab_size config) (hidden_size config) st;
          (position_embeddings, st) =
            Embedding_new rnd (max_position_embeddings config) (hidden_size config) st;
          (token_type_embeddings, st) =
            Embedding_new rnd (type_vocab_size config) (hidden_size config) st;
          (layer_norm, st) = LayerNorm_new (hidden_size config) st
      in (Module KOther []
            [(''word_embeddings'', word_embeddings),
             (''position_embeddings'', position_embeddings),
             (''token_type_embeddings'', token_type_embeddings),
             (''LayerNorm'', layer_norm),
             (''dropout'', Leaf_new)], st))"

definition EntityEmbeddings_new ::
  "(nat \<Rightarrow> nat \<Rightarrow> nat \<Rightarrow> real) \<Rightarrow> LukeConfig \<Rightarrow> store \<Rightarrow> module \<times> store" where
  "EntityEmbeddings_new rnd config st =
     (let (entity_embeddings, st) =
            Embedding_new rnd (entity_vocab_size config) (entity_emb_size config) st;
          (position_embeddings, st) =
            Embedding_new rnd (max_position_embeddings config) (hidden_size config) st;
          (token_type_embeddings, st) =
            Embedding_new rnd (type_vocab_size config) (hidden_size config) st;
          (entity_dense, st) =
            (if entity_emb_size config \<noteq> hidden_size config
             then (let (d, st) =
                         Linear_new rnd (entity_emb_size config) (hidden_size config) False st
                   in ([(''entity_dense'', d)], st))
             else ([], st));
          (layer_norm, st) = LayerNorm_new (hidden_size config) st
      in (Module KOther []
            ([(''entity_embeddings'', entity_embeddings),
              (''position_embeddings'', position_embeddings),
              (''token_type_embeddings'', token_type_embeddings)]
             @ entity_dense
             @ [(''LayerNorm'', layer_norm), (''dropout'', Leaf_new)]), st))"

definition SelfAttention_new ::
  "(nat \<Rightarrow> nat \<Rightarrow> nat \<Rightarrow> real) \<Rightarrow> LukeConfig \<Rightarrow> store \<Rightarrow> module \<times> store" where
  "SelfAttention_new rnd config st =
     (let attention_head_size = hidden_size config div num_attention_heads config;
          all_head_size = num_attention_heads config * attention_head_size;
          (query, st) = Linear_new rnd (hidden_size config) all_head_size True st;
          (key, st) = Linear_new rnd (hidden_size config) all_head_size True st;
          (val, st) = Linear_new rnd (hidden_size config) all_head_size True st
      in (Module KOther []
            [(''query'', query), (''key'', key), (''value'', val), (''dropout'', Leaf_new)],
          st))"

definition SelfOutput_new ::
  "(nat \<Rightarrow> nat \<Rightarrow> nat \<Rightarrow> real) \<Rightarrow> LukeConfig \<Rightarrow> store \<Rightarrow> module \<times> store" where
  "SelfOutput_new rnd config st =
     (let (dense, st) = Linear_new rnd (hidden_size config) (hidden_size config) True st;
          (layer_norm, st) = LayerNorm_new (hidden_size config) st
      in (Module KOther []
            [(''dense'', dense), (''LayerNorm'', layer_norm), (''dropout'', Leaf_new)], st))"

definition Attention_new ::
  "(nat \<Rightarrow> nat \<Rightarrow> nat \<Rightarrow> real) \<Rightarrow> LukeConfig \<Rightarrow> store \<Rightarrow> module \<times> store" where
  "Attention_new rnd config st =
     (let (self, st) = SelfAttention_new rnd config st;
          (out, st) = SelfOutput_new rnd config st
      in (Module KOther [] [(''self'', self), (''output'', out)], st))"

definition Intermediate_new ::
  "(nat \<Rightarrow> nat \<Rightarrow> nat \<Rightarrow> real) \<Rightarrow> LukeConfig \<Rightarrow> store \<Rightarrow> module \<times> store" where
  "Intermediate_new rnd config st =
     (let (dense, st) =
            Linear_new rnd (hidden_size config) (intermediate_size config) True st
      in (Module KOther [] [(''dense'', dense)], st))"

definition Output_new ::
  "(nat \<Rightarrow> nat \<Rightarrow> nat \<Rightarrow> real) \<Rightarrow> LukeConfig \<Rightarrow> store \<Rightarrow> module \<times> store" where
  "Output_new rnd config st =
     (let (dense, st) =
            Linear_new rnd (intermediate_size config) (hidden_size config) True st;
          (layer_norm, st) = LayerNorm_new (hidden_size config) st
      in (Module KOther []
            [(''dense'', dense), (''LayerNorm'', layer_norm), (''dropout'', Leaf_new)], st))"

definition Layer_new ::
  "(nat \<Rightarrow> nat \<Rightarrow> nat \<Rightarrow> real) \<Rightarrow> LukeConfig \<Rightarrow> store \<Rightarrow> module \<times> store" where
  "Layer_new rnd config st =
     (let (attention, st) = Attention_new rnd config st;
          (intermediate, st) = Intermediate_new rnd config st;
          (out, st) = Output_new rnd config st
      in (Module KOther []
            [(''attention'', attention), (''intermediate'', intermediate), (''output'', out)],
          st))"

subsection \<open>copy.deepcopy and the Encoder\<close>

text \<open>
  \<^verbatim>\<open>copy.deepcopy\<close> of a module copies every parameter into a new tensor. Its memo maps the
  parameters already copied to their copies, so a parameter met twice is copied once.
\<close>

fun deepcopy_parameters ::
  "(string \<times> nat option) list \<Rightarrow> (nat \<times> nat) list \<times> store
     \<Rightarrow> (string \<times> nat option) list \<times> ((nat \<times> nat) list \<times> store)" where
  "deepcopy_parameters [] s = ([], s)"
| "deepcopy_parameters ((n, None) # ps) s =
     (let (ps', s) = deepcopy_parameters ps s in ((n, None) # ps', s))"
| "deepcopy_parameters ((n, Some a) # ps) (memo, st) =
     (case map_of memo a of
        Some a' \<Rightarrow>
          (let (ps', s) = deepcopy_parameters ps (memo, st) in ((n, Some a') # ps', s))
      | None \<Rightarrow>
          (let (a', st) = alloc (cells st ! a) st;
               (ps', s) = deepcopy_parameters ps ((a, a') # memo, st)
           in ((n, Some a') # ps', s)))"

fun deepcopy_module :: "module \<Rightarrow> (nat \<times> nat) list \<times> store \<Rightarrow> module \<times> ((nat \<times> nat) list \<times> store)"
  and deepcopy_children ::
    "(string \<times> module) list \<Rightarrow> (nat \<times> nat) list \<times> store
       \<Rightarrow> (string \<times> module) list \<times> ((nat \<times> nat) list \<times> store)" where
  "deepcopy_module (Module k ps cs) s =
     (let (ps', s) = deepcopy_parameters ps s;
          (cs', s) = deepcopy_children cs s
      in (Module k ps' cs', s))"
| "deepcopy_children [] s = ([], s)"
| "deepcopy_children ((n, c) # cs) s =
     (let (c', s) = deepcopy_module c s;
          (cs', s) = deepcopy_children cs s
      in ((n, c') # cs', s))"

definition deepcopy :: "module \<Rightarrow> store \<Rightarrow> module \<times> store" where
  "deepcopy m st = (let (m', (memo, st)) = deepcopy_module m ([], st) in (m', st))"

text \<open>\<^verbatim>\<open>[copy.deepcopy(layer) for _ in range(n)]\<close>.\<close>

fun deepcopies :: "module \<Rightarrow> nat \<Rightarrow> store \<Rightarrow> module list \<times> store" where
  "deepcopies m 0 st = ([], st)"
| "deepcopies m (Suc n) st =
     (let (c, st) = deepcopy m st;
          (cs, st) = deepcopies m n st
      in (c # cs, st))"

text \<open>\<^verbatim>\<open>str(i)\<close>, the name of the \<open>i\<close>-th module of a \<^verbatim>\<open>nn.ModuleList\<close>.\<close>

fun str_nat_fuel :: "nat \<Rightarrow> nat \<Rightarrow> string" where
  "str_nat_fuel 0 n = [char_of (48 + n mod 10)]"
| "str_nat_fuel (Suc f) n =
     (if n < 10 then [char_of (48 + n)]
      else str_nat_fuel f (n div 10) @ [char_of (48 + n mod 10)])"

definition str_nat :: "nat \<Rightarrow> string" where
  "str_nat n = str_nat_fuel n n"

definition ModuleList :: "module list \<Rightarrow> module" where
  "ModuleList ms = Module KOther [] (map (\<lambda>i. (str_nat i, ms ! i)) [0..<length ms])"

definition Encoder_new ::
  "(nat \<Rightarrow> nat \<Rightarrow> nat \<Rightarrow> real) \<Rightarrow> LukeConfig \<Rightarrow> store \<Rightarrow> module \<times> store" where
  "Encoder_new rnd config st =
     (let (layer, st) = Layer_new rnd config st;
          (copies, st) = deepcopies layer (num_hidden_layers config) st
      in (Module KOther [] [(''layer'', ModuleList copies)], st))"

subsection \<open>Pooler, prediction heads and the models\<close>

definition Pooler_new ::
  "(nat \<Rightarrow> nat \<Rightarrow> nat \<Rightarrow> real) \<Rightarrow> LukeConfig \<Rightarrow> store \<Rightarrow> module \<times> store" where
  "Pooler_new rnd config st =
     (let (dense, st) = Linear_new rnd (hidden_size config) (hidden_size config) True st
      in (Module KOther [] [(''dense'', dense), (''activation'', Leaf_new)], st))"

definition PredictionHeadTransform_new ::
  "(nat \<Rightarrow> nat \<Rightarrow> nat \<Rightarrow> real) \<Rightarrow> LukeConfig \<Rightarrow> nat \<Rightarrow> store \<Rightarrow> module \<times> store" where
  "PredictionHeadTransform_new rnd config out_hidden_size st =
     (let (dense, st) = Linear_new rnd (hidden_size config) out_hidden_size True st;
          (layer_norm, st) = LayerNorm_new out_hidden_size st
      in (Module KOther [] [(''dense'', dense), (''LayerNorm'', layer_norm)], st))"

text \<open>\<^verbatim>\<open>t.size(0)\<close> and \<^verbatim>\<open>t.size(1)\<close> of a parameter.\<close>

definition size0 :: "tensor \<Rightarrow> nat" where
  "size0 t = shape t ! 0"

definition size1 :: "tensor \<Rightarrow> nat" where
  "size1 t = (case t of T1 _ \<Rightarrow> 0 | T2 _ \<Rightarrow> shape t ! 1)"

text \<open>
  An assignment \<^verbatim>\<open>module.name = parameter\<close>: the entry of \<^verbatim>\<open>_parameters\<close> now holds the
  parameter assigned, the object itself.
\<close>

fun set_parameter :: "module \<Rightarrow> string \<Rightarrow> nat \<Rightarrow> module" where
  "set_parameter (Module k ps cs) n a = Module k (AList.update n (Some a) ps) cs"

text \<open>
  \<open>LMPredictionHead\<close>: the decoder is built as a linear layer of its own and then its weight
  is replaced by the embedding weight handed in; the bias belongs to the head.
  \<open>EntityPredictionHead\<close> differs in the width of its transform.
\<close>

definition PredictionHead_new ::
  "(nat \<Rightarrow> nat \<Rightarrow> nat \<Rightarrow> real) \<Rightarrow> LukeConfig \<Rightarrow> nat \<Rightarrow> nat \<Rightarrow> store \<Rightarrow> module \<times> store" where
  "PredictionHead_new rnd config out_hidden_size embedding_weights st =
     (let (transform, st) = PredictionHeadTransform_new rnd config out_hidden_size st;
          (decoder, st) =
            Linear_new rnd (size1 (cells st ! embedding_weights))
              (size0 (cells st ! embedding_weights)) False st;
          decoder = set_parameter decoder ''weight'' embedding_weights;
          (bias, st) = alloc (T1 (replicate (size0 (cells st ! embedding_weights)) 0)) st
      in (Module KOther [(''bias'', Some bias)]
            [(''transform'', transform), (''decoder'', decoder)], st))"

definition LMPredictionHead_new ::
  "(nat \<Rightarrow> nat \<Rightarrow> nat \<Rightarrow> real) \<Rightarrow> LukeConfig \<Rightarrow> nat \<Rightarrow> store \<Rightarrow> module \<times> store" where
  "LMPredictionHead_new rnd config word_embedding_weights st =
     PredictionHead_new rnd config (hidden_size config) word_embedding_weights st"

definition EntityPredictionHead_new ::
  "(nat \<Rightarrow> nat \<Rightarrow> nat \<Rightarrow> real) \<Rightarrow> LukeConfig \<Rightarrow> nat \<Rightarrow> store \<Rightarrow> module \<times> store" where
  "EntityPredictionHead_new rnd config entity_embedding_weights st =
     PredictionHead_new rnd config (size1 (cells st ! entity_embedding_weights))
       entity_embedding_weights st"

definition BertPreTrainingHeads_new ::
  "(nat \<Rightarrow> nat \<Rightarrow> nat \<Rightarrow> real) \<Rightarrow> LukeConfig \<Rightarrow> nat \<Rightarrow> store \<Rightarrow> module \<times> store" where
  "BertPreTrainingHeads_new rnd config bert_model_embedding_weights st =
     (let (predictions, st) = LMPredictionHead_new rnd config bert_model_embedding_weights st;
          (seq_relationship, st) = Linear_new rnd (hidden_size config) 2 True st
      in (Module KOther []
            [(''predictions'', predictions), (''seq_relationship'', seq_relationship)], st))"

definition LukeModel_new ::
  "(nat \<Rightarrow> nat \<Rightarrow> nat \<Rightarrow> real) \<Rightarrow> LukeConfig \<Rightarrow> store \<Rightarrow> module \<times> store" where
  "LukeModel_new rnd config st =
     (let (encoder, st) = Encoder_new rnd config st;
          (pooler, st) = Pooler_new rnd config st;
          (embeddings, st) = WordEmbeddings_new rnd config st;
          (entity_embeddings, st) = EntityEmbeddings_new rnd config st
      in (Module KOther []
            [(''encoder'', encoder), (''pooler'', pooler), (''embeddings'', embeddings),
             (''entity_embeddings'', entity_embeddings)], st))"

subsection \<open>Attribute paths, apply and init_weights\<close>

fun child :: "module \<Rightarrow> string \<Rightarrow> module option" where
  "child (Module k ps cs) n = map_of cs n"

fun parameter :: "module \<Rightarrow> string \<Rightarrow> nat option" where
  "parameter (Module k ps cs) n = (case map_of ps n of Some (Some a) \<Rightarrow> Some a | _ \<Rightarrow> None)"

text \<open>
  \<^verbatim>\<open>m.a.b.name\<close>: the parameter \<open>name\<close> of the module reached through the attributes
  \<open>a\<close>, \<open>b\<close>; \<open>None\<close> when an attribute is missing or the parameter is \<open>None\<close>.
\<close>

fun get_parameter :: "module \<Rightarrow> string list \<Rightarrow> string \<Rightarrow> nat option" where
  "get_parameter m [] n = parameter m n"
| "get_parameter m (c # path) n =
     (case child m c of None \<Rightarrow> None | Some m' \<Rightarrow> get_parameter m' path n)"

text \<open>
  \<^verbatim>\<open>init_weights\<close> on one module: the fills are in place, through \<^verbatim>\<open>.data\<close>, so no
  parameter changes its identity.
\<close>

fun init_weights :: "(nat \<Rightarrow> nat \<Rightarrow> nat \<Rightarrow> real) \<Rightarrow> module \<Rightarrow> store \<Rightarrow> store" where
  "init_weights rnd (Module k ps cs) st =
     (let st = (if k = KLinear \<or> k = KEmbedding
                then (case parameter (Module k ps cs) ''weight'' of
                        Some w \<Rightarrow> fill_random rnd w st
                      | None \<Rightarrow> st)
                else if k = KLayerNorm
                then (case (parameter (Module k ps cs) ''bias'',
                            parameter (Module k ps cs) ''weight'') of
                        (Some b, Some w) \<Rightarrow> fill_constant 1 w (fill_constant 0 b st)
                      | _ \<Rightarrow> st)
                else st)
      in if k = KLinear
         then (case parameter (Module k ps cs) ''bias'' of
                 Some b \<Rightarrow> fill_constant 0 b st
               | None \<Rightarrow> st)
         else st)"

text \<open>\<^verbatim>\<open>module.apply(fn)\<close>: the children first, in order, then the module itself.\<close>

fun apply_init :: "(nat \<Rightarrow> nat \<Rightarrow> nat \<Rightarrow> real) \<Rightarrow> module \<Rightarrow> store \<Rightarrow> store"
  and apply_init_children :: "(nat \<Rightarrow> nat \<Rightarrow> nat \<Rightarrow> real) \<Rightarrow> (string \<times> module) list \<Rightarrow> store \<Rightarrow> store" where
  "apply_init rnd (Module k ps cs) st =
     init_weights rnd (Module k ps cs) (apply_init_children rnd cs st)"
| "apply_init_children rnd [] st = st"
| "apply_init_children rnd ((n, c) # cs) st = apply_init_children rnd cs (apply_init rnd c st)"

text \<open>
  \<^verbatim>\<open>LukePretrainingModel.__init__\<close>: the base model, the two heads on the embedding weights
  of the base model, then \<^verbatim>\<open>self.apply(self.init_weights)\<close>. A missing attribute is an
  \<open>AttributeError\<close>.
\<close>

definition LukePretrainingModel_new ::
  "(nat \<Rightarrow> nat \<Rightarrow> nat \<Rightarrow> real) \<Rightarrow> LukeConfig \<Rightarrow> store \<Rightarrow> error + module \<times> store" where
  "LukePretrainingModel_new rnd config st =
     (let (base, st) = LukeModel_new rnd config st
      in case (get_parameter base [''embeddings'', ''word_embeddings''] ''weight'',
               get_parameter base [''entity_embeddings'', ''entity_embeddings''] ''weight'') of
           (Some word_weight, Some entity_weight) \<Rightarrow>
             (let (cls, st) = BertPreTrainingHeads_new rnd config word_weight st;
                  (entity_predictions, st) =
                    EntityPredictionHead_new rnd config entity_weight st;
                  m = (case base of Module k ps cs \<Rightarrow>
                         Module k ps (cs @ [(''cls'', cls),
                                            (''entity_predictions'', entity_predictions)]))
              in Inr (m, apply_init rnd m st))
         | _ \<Rightarrow> Inl AttributeError)"

text \<open>
  Reading a parameter through an attribute path, and an in-place write to it (as an
  optimizer step or \<^verbatim>\<open>weight.data.copy_(v)\<close> makes): the tensor object stays, its entries
  change.
\<close>

definition read_parameter :: "store \<Rightarrow> module \<Rightarrow> string list \<Rightarrow> string \<Rightarrow> tensor option" where
  "read_parameter st m path n = map_option (\<lambda>a. cells st ! a) (get_parameter m path n)"

definition write_parameter :: "store \<Rightarrow> module \<Rightarrow> string list \<Rightarrow> string \<Rightarrow> tensor \<Rightarrow> store" where
  "write_parameter st m path n v =
     (case get_parameter m path n of
        None \<Rightarrow> st
      | Some a \<Rightarrow> st\<lparr>cells := (cells st)[a := v]\<rparr>)"

section \<open>load_bert_weights\<close>

text \<open>
  \<^verbatim>\<open>str.replace(old, new)\<close> for a non-empty \<open>old\<close>: the occurrences are replaced from the
  left and do not overlap. The counter is the number of characters of the current
  occurrence still to skip.
\<close>

fun replace_from :: "string \<Rightarrow> string \<Rightarrow> nat \<Rightarrow> string \<Rightarrow> string" where
  "replace_from old new k [] = []"
| "replace_from old new (Suc k) (c # cs) = replace_from old new k cs"
| "replace_from old new 0 (c # cs) =
     (if take (length old) (c # cs) = old
      then new @ replace_from old new (length old - 1) cs
      else c # replace_from old new 0 cs)"

definition replace :: "string \<Rightarrow> string \<Rightarrow> string \<Rightarrow> string" where
  "replace old new s =
     (if old = [] then new @ concat (map (\<lambda>c. c # new) s) else replace_from old new 0 s)"

definition startswith :: "string \<Rightarrow> string \<Rightarrow> bool" where
  "startswith s p = (take (length p) s = p)"

text \<open>Lines 401 to 403: the new name of a checkpoint key.\<close>

definition rename_key :: "string \<Rightarrow> string" where
  "rename_key key =
     (let new_key = replace ''beta'' ''bias'' (replace ''gamma'' ''weight'' key)
      in if startswith new_key ''bert.'' then drop 5 new_key else new_key)"

text \<open>
  Lines 400 to 407: the loop over the keys the dictionary had before the loop. The
  dictionary keeps its insertion order; an assignment to a key that is present replaces
  the value in place.
\<close>

fun rename_loop :: "string list \<Rightarrow> (string \<times> tensor) list \<Rightarrow> error + (string \<times> tensor) list" where
  "rename_loop [] state_dict = Inr state_dict"
| "rename_loop (key # keys) state_dict =
     (let new_key = rename_key key
      in if key \<noteq> new_key
         then (case map_of state_dict key of
                 None \<Rightarrow> Inl KeyError
               | Some v \<Rightarrow>
                   rename_loop keys (AList.delete key (AList.update new_key v state_dict)))
         else rename_loop keys state_dict)"

record load_state =
  ld_store :: store
  missing_keys :: "string list"
  unexpected_keys :: "string list"
  error_msgs :: "string list"

text \<open>
  torch's \<^verbatim>\<open>Module._load_from_state_dict\<close> with \<^verbatim>\<open>strict=True\<close>, on the parameters of
  one module (the models here register no buffer). A parameter whose key is in the
  dictionary is overwritten in place when the shapes agree, and its key goes to
  \<^verbatim>\<open>error_msgs\<close> when they differ; a parameter whose key is not there goes to
  \<^verbatim>\<open>missing_keys\<close>.
\<close>

fun load_parameters ::
  "(string \<times> nat option) list \<Rightarrow> string \<Rightarrow> (string \<times> tensor) list \<Rightarrow> load_state \<Rightarrow> load_state" where
  "load_parameters [] prefix state_dict ld = ld"
| "load_parameters ((name, None) # ps) prefix state_dict ld =
     load_parameters ps prefix state_dict ld"
| "load_parameters ((name, Some a) # ps) prefix state_dict ld =
     load_parameters ps prefix state_dict
       (case map_of state_dict (prefix @ name) of
          Some input_param \<Rightarrow>
            if shape input_param \<noteq> shape (cells (ld_store ld) ! a)
            then ld\<lparr>error_msgs := error_msgs ld @ [prefix @ name]\<rparr>
            else ld\<lparr>ld_store := (ld_store ld)\<lparr>cells := (cells (ld_store ld))[a := input_param]\<rparr>\<rparr>
        | None \<Rightarrow> ld\<lparr>missing_keys := missing_keys ld @ [prefix @ name]\<rparr>)"

text \<open>
  The keys under the prefix whose next component names neither a child nor a parameter
  of the module are unexpected.
\<close>

definition unexpected_here ::
  "module \<Rightarrow> string \<Rightarrow> (string \<times> tensor) list \<Rightarrow> string list" where
  "unexpected_here m prefix state_dict =
     (case m of Module k ps cs \<Rightarrow>
        filter (\<lambda>key. startswith key prefix \<and>
                  (let input_name = takeWhile (\<lambda>c. c \<noteq> CHR ''.'') (drop (length prefix) key)
                   in input_name \<notin> set (map fst cs) \<and>
                      input_name \<notin> set (map fst (filter (\<lambda>(n, a). a \<noteq> None) ps))))
          (map fst state_dict))"

definition load_from_state_dict ::
  "module \<Rightarrow> string \<Rightarrow> (string \<times> tensor) list \<Rightarrow> load_state \<Rightarrow> load_state" where
  "load_from_state_dict m prefix state_dict ld =
     (case m of Module k ps cs \<Rightarrow>
        (let ld = load_parameters ps prefix state_dict ld
         in ld\<lparr>unexpected_keys := unexpected_keys ld @ unexpected_here m prefix state_dict\<rparr>))"

text \<open>The local function \<^verbatim>\<open>load\<close>: the module, then its children under longer prefixes.\<close>

fun load :: "module \<Rightarrow> string \<Rightarrow> (string \<times> tensor) list \<Rightarrow> load_state \<Rightarrow> load_state"
  and load_children ::
    "(string \<times> module) list \<Rightarrow> string \<Rightarrow> (string \<times> tensor) list \<Rightarrow> load_state \<Rightarrow> load_state" where
  "load (Module k ps cs) prefix state_dict ld =
     load_children cs prefix state_dict
       (load_from_state_dict (Module k ps cs) prefix state_dict ld)"
| "load_children [] prefix state_dict ld = ld"
| "load_children ((name, c) # cs) prefix state_dict ld =
     load_children cs prefix state_dict (load c (prefix @ name @ ''.'') state_dict ld)"

text \<open>
  \<^verbatim>\<open>load_bert_weights\<close>: the store after loading, the three lists, and the message logged
  (the sorted unexpected keys) when there is one.
\<close>

definition load_bert_weights ::
  "module \<Rightarrow> (string \<times> tensor) list \<Rightarrow> store \<Rightarrow> error + load_state \<times> string list option" where
  "load_bert_weights m state_dict st =
     (case rename_loop (map fst state_dict) state_dict of
        Inl e \<Rightarrow> Inl e
      | Inr state_dict \<Rightarrow>
          (let ld = load m [] state_dict
                      \<lparr>ld_store = st, missing_keys = [], unexpected_keys = [], error_msgs = []\<rparr>
           in Inr (ld, if length (unexpected_keys ld) > 0
                       then Some (sort (unexpected_keys ld)) else None)))"

section \<open>Calling the base model from the sentence-embedding evaluator\<close>

text \<open>
  A call of \<^verbatim>\<open>LukeModel.forward\<close> by keyword. The seven tensor parameters have no
  default value: a call that leaves one out is a \<open>TypeError\<close> before the body runs.
  A keyword is \<open>None\<close> when the call does not give it, and \<open>Some x\<close> when it gives the
  value \<open>x\<close> (which may be Python's \<open>None\<close>).
\<close>

record forward_kwargs =
  kw_word_ids :: "int list list option option"
  kw_word_segment_ids :: "int list list option option"
  kw_word_attention_mask :: "int list list option option"
  kw_entity_ids :: "int list list option option"
  kw_entity_position_ids :: "int list list list option option"
  kw_entity_segment_ids :: "int list list option option"
  kw_entity_attention_mask :: "int list list option option"
  kw_output_all_encoded_layers :: "bool option"

definition LukeModel_forward_call ::
  "(real \<Rightarrow> real) \<Rightarrow> LukeModel \<Rightarrow> forward_kwargs \<Rightarrow> error + (encoded_layers \<times> vec list)" where
  "LukeModel_forward_call erf m kw =
     (case (kw_word_ids kw, kw_word_segment_ids kw, kw_word_attention_mask kw,
            kw_entity_ids kw, kw_entity_position_ids kw, kw_entity_segment_ids kw,
            kw_entity_attention_mask kw) of
        (Some word_ids, Some word_segment_ids, Some word_attention_mask, Some entity_ids,
         Some entity_position_ids, Some entity_segment_ids, Some entity_attention_mask) \<Rightarrow>
          LukeModel_forward erf m word_ids word_segment_ids word_attention_mask entity_ids
            entity_position_ids entity_segment_ids entity_attention_mask
            (case kw_output_all_encoded_layers kw of None \<Rightarrow> True | Some b \<Rightarrow> b)
      | _ \<Rightarrow> Inl TypeError)"

text \<open>
  \<^verbatim>\<open>LukeSentenceEmbedding.forward\<close> of the evaluator: the forward pass of the base class
  with the three word arguments, the first component of its result, and the index
  \<^verbatim>\<open>[:, 0]\<close> on it. The first component is a Python list (or a pair) of streams, which a
  tuple index does not apply to.
\<close>

definition LukeSentenceEmbedding_forward ::
  "(real \<Rightarrow> real) \<Rightarrow> LukePretrainingModel \<Rightarrow> int list list \<Rightarrow> int list list \<Rightarrow> int list list
     \<Rightarrow> error + vec list" where
  "LukeSentenceEmbedding_forward erf luke_model token_ids type_ids msk =
     (case LukeModel_forward_call erf (pm_base luke_model)
             \<lparr>kw_word_ids = Some (Some token_ids),
              kw_word_segment_ids = Some (Some type_ids),
              kw_word_attention_mask = Some (Some msk),
              kw_entity_ids = None, kw_entity_position_ids = None,
              kw_entity_segment_ids = None, kw_entity_attention_mask = None,
              kw_output_all_encoded_layers = None\<rparr> of
        Inl e \<Rightarrow> Inl e
      | Inr (word_sequence_output, _) \<Rightarrow>
          (case word_sequence_output of
             AllLayers _ \<Rightarrow> Inl TypeError
           | LastLayer _ \<Rightarrow> Inl TypeError))"

section \<open>Concrete inputs\<close>

text \<open>
  A self-attention module with one head of size one on a hidden width of one: the query
  and the key are constantly zero, the value is the input feature.
\<close>

definition example_attention :: SelfAttention where
  "example_attention =
     \<lparr>sa_num_attention_heads = 1, sa_attention_head_size = 1, sa_all_head_size = 1,
      sa_query = \<lparr>lin_weight = [[0]], lin_bias = Some [0]\<rparr>,
      sa_key = \<lparr>lin_weight = [[0]], lin_bias = Some [0]\<rparr>,
      sa_value = \<lparr>lin_weight = [[1]], lin_bias = Some [0]\<rparr>,
      sa_dropout = 0\<rparr>"

text \<open>A prediction head on a hidden width of one and a vocabulary of one entry.\<close>

definition example_head :: PredictionHead where
  "example_head =
     \<lparr>ph_transform =
        \<lparr>pt_dense = \<lparr>lin_weight = [[1]], lin_bias = Some [0]\<rparr>,
         pt_LayerNorm = LayerNorm_init 1 (1 / 10 ^ 12)\<rparr>,
      ph_bias = [0]\<rparr>"

text \<open>
  A pretraining model on a hidden width of one with vocabularies of one entry and no
  encoder layer.
\<close>

definition example_config :: LukeConfig where
  "example_config =
     \<lparr>vocab_size = 1, entity_vocab_size = 1, hidden_size = 1, entity_emb_size = 1,
      num_hidden_layers = 0, num_attention_heads = 1, intermediate_size = 1,
      hidden_dropout_prob = 0, attention_probs_dropout_prob = 0,
      max_position_embeddings = 1, type_vocab_size = 1, initializer_range = 1 / 50\<rparr>"

definition example_model :: LukePretrainingModel where
  "example_model =
     \<lparr>pm_base =
        \<lparr>lm_config = example_config,
         lm_encoder = [],
         lm_pooler = \<lparr>po_dense = \<lparr>lin_weight = [[1]], lin_bias = Some [0]\<rparr>\<rparr>,
         lm_embeddings =
           \<lparr>we_word_embeddings = [[1]], we_position_embeddings = [[1]],
            we_token_type_embeddings = [[1]],
            we_LayerNorm = LayerNorm_init 1 (1 / 10 ^ 12), we_dropout = 0\<rparr>,
         lm_entity_embeddings =
           \<lparr>ee_config = example_config, ee_entity_embeddings = [[1]],
            ee_position_embeddings = [[1]], ee_token_type_embeddings = [[1]],
            ee_entity_dense = None,
            ee_LayerNorm = LayerNorm_init 1 (1 / 10 ^ 12), ee_dropout = 0\<rparr>\<rparr>,
      pm_cls =
        \<lparr>cls_predictions = example_head,
         cls_seq_relationship = \<lparr>lin_weight = [[1], [1]], lin_bias = Some [0, 0]\<rparr>\<rparr>,
      pm_entity_predictions = example_head\<rparr>"

text \<open>
  An encoder layer on a hidden width of one around the example attention module, and the
  example model with this layer as its encoder.
\<close>

definition example_layer :: Layer where
  "example_layer =
     \<lparr>ly_attention =
        \<lparr>att_self = example_attention,
         att_output =
           \<lparr>so_dense = \<lparr>lin_weight = [[1]], lin_bias = Some [0]\<rparr>,
            so_LayerNorm = LayerNorm_init 1 (1 / 10 ^ 12), so_dropout = 0\<rparr>\<rparr>,
      ly_intermediate = \<lparr>im_dense = \<lparr>lin_weight = [[1]], lin_bias = Some [0]\<rparr>\<rparr>,
      ly_output =
        \<lparr>out_dense = \<lparr>lin_weight = [[1]], lin_bias = Some [0]\<rparr>,
         out_LayerNorm = LayerNorm_init 1 (1 / 10 ^ 12), out_dropout = 0\<rparr>\<rparr>"

definition example_base_one_layer :: LukeModel where
  "example_base_one_layer = (pm_base example_model)\<lparr>lm_encoder := [example_layer]\<rparr>"

section \<open>The loss the specification describes\<close>

text \<open>
  The overall loss in the words of the specification: the sum of whichever of the three
  losses are present, and no loss when none is. \<open>loss_of\<close> reads the loss of a branch
  that ran and returned.
\<close>

definition spec_total_loss ::
  "loss_value option \<Rightarrow> loss_value option \<Rightarrow> loss_value option \<Rightarrow> loss_value option" where
  "spec_total_loss a b c =
     (case List.map_filter id [a, b, c] of
        [] \<Rightarrow> None
      | x # xs \<Rightarrow> Some (foldl loss_add x xs))"

fun loss_of :: "(error + loss_value \<times> int \<times> int) option \<Rightarrow> loss_value option" where
  "loss_of (Some (Inr (l, c, t))) = Some l"
| "loss_of _ = None"

section \<open>Parameters and structure of a module\<close>




section \<open>Properties\<close>

subsection \<open>Helper lemmas\<close>

lemma traverse_Inr_map:
  "(\<And>x. x \<in> set xs \<Longrightarrow> f x = Inr (g x)) \<Longrightarrow> traverse f xs = Inr (map g xs)"
  by (induction xs) simp_all

subsection \<open>LayerNorm\<close>

lemma sum_list_map_sub_div:
  "sum_list (map (\<lambda>a. (a - u) / c) x) = (sum_list x - real (length x) * u) / (c::real)"
  by (induction x) (simp_all add: algebra_simps add_divide_distrib[symmetric] diff_divide_distrib[symmetric])

lemma mean_normalized:
  assumes "x \<noteq> []"
  shows "mean (LayerNorm_normalized eps x) = 0"
proof -
  have "real (length x) \<noteq> 0" using assms by simp
  then have "sum_list x - real (length x) * mean x = 0"
    by (simp add: mean_def)
  then show ?thesis
    by (simp add: LayerNorm_normalized_def Let_def mean_def[of "map f x" for f] sum_list_map_sub_div)
qed

lemma sum_list_map_sq_div:
  "sum_list (map (\<lambda>a. (a / c) ^ 2) x) = sum_list (map (\<lambda>a. a ^ 2) x) / (c::real) ^ 2"
  by (induction x) (simp_all add: power_divide add_divide_distrib)

lemma variance_normalized:
  assumes "x \<noteq> []" "0 < eps"
  shows "variance (LayerNorm_normalized eps x) = variance x / (variance x + eps)"
proof -
  have v0: "0 \<le> variance x"
    unfolding variance_def mean_def by (intro divide_nonneg_nonneg sum_list_nonneg) auto
  define c where "c = sqrt (variance x + eps)"
  have c2: "c ^ 2 = variance x + eps" using v0 assms by (simp add: c_def)
  have n: "LayerNorm_normalized eps x = map (\<lambda>a. (a - mean x) / c) x"
    by (simp add: LayerNorm_normalized_def Let_def c_def variance_def)
  have m0: "mean (map (\<lambda>a. (a - mean x) / c) x) = 0"
    using mean_normalized[OF assms(1), of eps] n by simp
  have "variance (map (\<lambda>a. (a - mean x) / c) x)
        = sum_list (map (\<lambda>a. ((a - mean x) / c) ^ 2) x) / real (length x)"
    unfolding variance_def[of "map f x" for f] m0 by (simp add: mean_def o_def)
  also have "sum_list (map (\<lambda>a. ((a - mean x) / c) ^ 2) x)
        = sum_list (map (\<lambda>a. (a - mean x) ^ 2) x) / c ^ 2"
    using sum_list_map_sq_div[of c "map (\<lambda>a. a - mean x) x"] by (simp add: o_def)
  finally show ?thesis
    by (simp add: n c2 variance_def[of x] mean_def[of "map f x" for f])
qed


lemma variance_nonneg: "0 \<le> variance x"
  unfolding variance_def mean_def by (intro divide_nonneg_nonneg sum_list_nonneg) auto

lemma LayerNorm_forward_nth:
  assumes "length (ln_weight lnm) = length x" "length (ln_bias lnm) = length x"
  shows "LayerNorm_forward lnm x =
     map (\<lambda>i. ln_weight lnm ! i * ((x ! i - mean x) / sqrt (variance x + variance_epsilon lnm))
               + ln_bias lnm ! i) [0..<length x]"
proof (rule nth_equalityI)
  define n where "n = LayerNorm_normalized (variance_epsilon lnm) x"
  have n: "n = map (\<lambda>a. (a - mean x) / sqrt (variance x + variance_epsilon lnm)) x"
    by (simp add: n_def LayerNorm_normalized_def Let_def variance_def)
  have f: "LayerNorm_forward lnm x = map2 (+) (map2 (*) (ln_weight lnm) n) (ln_bias lnm)"
    by (simp add: LayerNorm_forward_def vadd_def n_def)
  show "length (LayerNorm_forward lnm x) = length (map (\<lambda>i. ln_weight lnm ! i *
        ((x ! i - mean x) / sqrt (variance x + variance_epsilon lnm)) + ln_bias lnm ! i)
        [0..<length x])"
    unfolding f using assms by (simp add: n)
  fix i assume "i < length (LayerNorm_forward lnm x)"
  then have i: "i < length x" unfolding f using assms by (simp add: n)
  then show "LayerNorm_forward lnm x ! i = map (\<lambda>i. ln_weight lnm ! i *
        ((x ! i - mean x) / sqrt (variance x + variance_epsilon lnm)) + ln_bias lnm ! i)
        [0..<length x] ! i"
    unfolding f using assms by (simp add: n)
qed

text \<open>
  Claim C7, as amended. On a tensor whose last dimension is the layer's width (not empty),
  with a positive epsilon, \<open>LayerNorm.forward\<close> returns a tensor of the same shape; every
  output slice is the scale times the slice minus its mean over the square root of its
  biased variance plus epsilon, plus the shift; the value before scale and shift has mean
  zero and variance \<open>s / (s + eps)\<close>, where \<open>s\<close> is the biased variance of the input
  slice: a number in \<open>[0, 1)\<close>, not one.
\<close>

theorem LayerNorm_forward_normalizes:
  assumes "0 < variance_epsilon lnm" and "0 < h"
    and "length (ln_weight lnm) = h" and "length (ln_bias lnm) = h"
    and "\<forall>m\<in>set t. \<forall>x\<in>set m. length x = h"
  shows "map (map length) (LayerNorm_forward3 lnm t) = map (map length) t \<and>
    (\<forall>m\<in>set t. \<forall>x\<in>set m.
       LayerNorm_forward lnm x =
         map (\<lambda>i. ln_weight lnm ! i *
                   ((x ! i - mean x) / sqrt (variance x + variance_epsilon lnm))
                   + ln_bias lnm ! i) [0..<h] \<and>
       mean (LayerNorm_normalized (variance_epsilon lnm) x) = 0 \<and>
       variance (LayerNorm_normalized (variance_epsilon lnm) x) =
         variance x / (variance x + variance_epsilon lnm) \<and>
       0 \<le> variance (LayerNorm_normalized (variance_epsilon lnm) x) \<and>
       variance (LayerNorm_normalized (variance_epsilon lnm) x) < 1)"
proof -
  have slice: "LayerNorm_forward lnm x =
         map (\<lambda>i. ln_weight lnm ! i *
                   ((x ! i - mean x) / sqrt (variance x + variance_epsilon lnm))
                   + ln_bias lnm ! i) [0..<h] \<and>
       mean (LayerNorm_normalized (variance_epsilon lnm) x) = 0 \<and>
       variance (LayerNorm_normalized (variance_epsilon lnm) x) =
         variance x / (variance x + variance_epsilon lnm) \<and>
       0 \<le> variance (LayerNorm_normalized (variance_epsilon lnm) x) \<and>
       variance (LayerNorm_normalized (variance_epsilon lnm) x) < 1"
    if "length x = h" for x
  proof -
    have ne: "x \<noteq> []" using that assms(2) by auto
    have v: "variance (LayerNorm_normalized (variance_epsilon lnm) x) =
         variance x / (variance x + variance_epsilon lnm)"
      by (rule variance_normalized[OF ne assms(1)])
    have "variance x / (variance x + variance_epsilon lnm) < 1"
      using variance_nonneg[of x] assms(1) by (simp add: divide_less_eq)
    moreover have "0 \<le> variance x / (variance x + variance_epsilon lnm)"
      using variance_nonneg[of x] assms(1) by simp
    ultimately show ?thesis
      using v mean_normalized[OF ne] LayerNorm_forward_nth[of lnm x] assms(3,4) that
      by simp
  qed
  have len: "length (LayerNorm_forward lnm x) = length x" if "length x = h" for x
    using slice[OF that] that by simp
  have "map (map length) (LayerNorm_forward3 lnm t) = map (map length) t"
    unfolding LayerNorm_forward3_def using assms(5) len by (simp add: o_def)
  with slice assms(5) show ?thesis by blast
qed

text \<open>
  The theorem of claim C7 at the layer of width two and the tensor \<open>[[[1, 3]]]\<close>.
\<close>

theorem LayerNorm_forward_normalizes_witness:
  "map (map length) (LayerNorm_forward3 (LayerNorm_init 2 (1 / 10 ^ 12)) [[[1, 3]]]) = [[2]] \<and>
   mean (LayerNorm_normalized (1 / 10 ^ 12) [1, 3]) = 0 \<and>
   variance (LayerNorm_normalized (1 / 10 ^ 12) [1, 3]) = 1 / (1 + 1 / 10 ^ 12)"
  using LayerNorm_forward_normalizes[of "LayerNorm_init 2 (1 / 10 ^ 12)" 2 "[[[1, 3]]]"]
  by (simp add: LayerNorm_init_def variance_def mean_def)

text \<open>
  Claim C7 as stated fails on a constant slice: the normalized value of \<open>[1, 1, 1]\<close> has
  variance zero, which is not within one half of one.
\<close>

theorem LayerNorm_variance_counterexample:
  "variance (LayerNorm_normalized (1 / 10 ^ 12) [1, 1, 1]) = 0 \<and>
   \<not> \<bar>variance (LayerNorm_normalized (1 / 10 ^ 12) [1, 1, 1]) - 1\<bar> < 1 / 2"
  by (simp add: variance_def LayerNorm_normalized_def mean_def)

subsection \<open>The additive attention mask\<close>

lemma cat_dim1_Inr:
  "cat_dim1 a b = Inr c \<Longrightarrow> length a = length b \<and> c = map2 (@) a b"
  by (auto simp: cat_dim1_def split: if_splits)

text \<open>
  The values of the mask of \<open>LukeModel.forward\<close>: the word mask followed by the entity
  mask of each example, turned into \<open>(1 - m) * -10000\<close>.
\<close>

lemma LukeModel_attention_mask_values:
  assumes "LukeModel_attention_mask (Some wm) (Some em) = Inr ext"
  shows "length ext = length wm \<and> length em = length wm \<and>
    (\<forall>b < length ext.
       ext ! b = map (\<lambda>m. (1 - real_of_int m) * (- 10000)) (wm ! b @ em ! b) \<and>
       (\<forall>j < length (wm ! b @ em ! b).
          ((wm ! b @ em ! b) ! j = 1 \<longrightarrow> ext ! b ! j = 0) \<and>
          ((wm ! b @ em ! b) ! j = 0 \<longrightarrow> ext ! b ! j = - 10000)))"
proof -
  from assms obtain am where am: "cat_dim1 wm em = Inr am"
    and ext: "ext = map (map (\<lambda>m. (1 - real_of_int m) * (- 10000))) am"
    by (auto simp: LukeModel_attention_mask_def split: sum.splits)
  from cat_dim1_Inr[OF am] have len: "length wm = length em" and amd: "am = map2 (@) wm em"
    by simp_all
  have l1: "length ext = length wm" using ext amd len by simp
  have row: "ext ! b = map (\<lambda>m. (1 - real_of_int m) * (- 10000)) (wm ! b @ em ! b)"
    if "b < length ext" for b
    using that ext amd len by simp
  have entry: "ext ! b ! j = (1 - real_of_int ((wm ! b @ em ! b) ! j)) * (- 10000)"
    if "b < length ext" "j < length (wm ! b @ em ! b)" for b j
    unfolding row[OF that(1)] using that(2) by (rule nth_map)
  show ?thesis
  proof (intro conjI allI impI)
    show "length ext = length wm" by (rule l1)
    show "length em = length wm" using len by simp
  next
    fix b assume "b < length ext"
    then show "ext ! b = map (\<lambda>m. (1 - real_of_int m) * (- 10000)) (wm ! b @ em ! b)"
      by (rule row)
  next
    fix b j assume "b < length ext" "j < length (wm ! b @ em ! b)" "(wm ! b @ em ! b) ! j = 1"
    then show "ext ! b ! j = 0" using entry[of b j] by simp
  next
    fix b j assume "b < length ext" "j < length (wm ! b @ em ! b)" "(wm ! b @ em ! b) ! j = 0"
    then show "ext ! b ! j = - 10000" using entry[of b j] by simp
  qed
qed

subsection \<open>The position embedding of an entity\<close>

lemma length_sum_slots:
  "(\<And>v. v \<in> set vs \<Longrightarrow> length v = h) \<Longrightarrow> length (sum_slots h vs) = h"
  by (induction vs) (simp_all add: sum_slots_def vadd_def)

lemma vadd_zero_left: "length v = h \<Longrightarrow> vadd (replicate h 0) v = v"
  by (simp add: vadd_def list_eq_iff_nth_eq)

lemma sum_list_validity_mask:
  "sum_list (validity_mask ids) = real (length (filter (\<lambda>i. i \<noteq> - 1) ids))"
  by (induction ids) (simp_all add: validity_mask_def)

lemma sum_slots_masked:
  assumes "\<And>i. i \<in> set ids \<Longrightarrow> length (emb i) = h"
  shows "sum_slots h (map2 (\<lambda>v m. map (\<lambda>a. a * m) v) (map emb ids) (validity_mask ids))
         = sum_slots h (map emb (filter (\<lambda>i. i \<noteq> - 1) ids))"
  using assms
proof (induction ids)
  case Nil
  then show ?case by (simp add: validity_mask_def)
next
  case (Cons i ids)
  have IH: "sum_slots h (map2 (\<lambda>v m. map (\<lambda>a. a * m) v) (map emb ids) (validity_mask ids))
         = sum_slots h (map emb (filter (\<lambda>i. i \<noteq> - 1) ids))"
    using Cons by simp
  have len: "length (sum_slots h (map emb (filter (\<lambda>i. i \<noteq> - 1) ids))) = h"
    by (rule length_sum_slots) (use Cons.prems in auto)
  have step: "sum_slots h (map2 (\<lambda>v m. map (\<lambda>a. a * m) v) (map emb (i # ids)) (validity_mask (i # ids)))
      = vadd (map (\<lambda>a. a * (if i \<noteq> - 1 then 1 else 0)) (emb i))
          (sum_slots h (map emb (filter (\<lambda>i. i \<noteq> - 1) ids)))"
    using IH by (simp add: validity_mask_def sum_slots_def)
  show ?case
  proof (cases "i = - 1")
    case True
    have "map (\<lambda>a. a * (if i \<noteq> - 1 then 1 else 0)) (emb i) = replicate h (0::real)"
      using True Cons.prems[of i] by (simp add: list_eq_iff_nth_eq)
    then show ?thesis using step True len by (simp add: vadd_zero_left)
  next
    case False
    then show ?thesis using step by (simp add: sum_slots_def)
  qed
qed

lemma traverse_nth:
  "traverse f xs = Inr ys \<Longrightarrow>
     length ys = length xs \<and> (\<forall>i<length xs. f (xs ! i) = Inr (ys ! i))"
proof (induction xs arbitrary: ys)
  case Nil
  then show ?case by simp
next
  case (Cons x xs)
  from Cons.prems obtain y zs where y: "f x = Inr y" and zs: "traverse f xs = Inr zs"
    and ys: "ys = y # zs"
    by (auto split: sum.splits)
  from Cons.IH[OF zs] have IH: "length zs = length xs" "\<forall>i<length xs. f (xs ! i) = Inr (zs ! i)"
    by simp_all
  show ?case
  proof (intro conjI allI impI)
    show "length ys = length (x # xs)" using ys IH(1) by simp
    fix i assume "i < length (x # xs)"
    then show "f ((x # xs) ! i) = Inr (ys ! i)"
      using y ys IH(2) by (cases i) simp_all
  qed
qed

lemma finite_vec_Inr: "finite_vec q = Inr v \<Longrightarrow> q = map Finite v"
proof -
  assume a: "finite_vec q = Inr v"
  from traverse_nth[OF a[unfolded finite_vec_def]]
  have l: "length v = length q"
    and n: "\<forall>i<length q. (case q ! i of Finite x \<Rightarrow> Inr x | _ \<Rightarrow> Inl NonFinite) = Inr (v ! i)"
    by simp_all
  show ?thesis
  proof (rule nth_equalityI)
    show "length q = length (map Finite v)" using l by simp
    fix i assume "i < length q"
    with n have "(case q ! i of Finite x \<Rightarrow> Inr x | _ \<Rightarrow> Inl NonFinite) = Inr (v ! i)" by blast
    then have "q ! i = Finite (v ! i)" by (cases "q ! i") simp_all
    then show "q ! i = map Finite v ! i" using \<open>i < length q\<close> l by simp
  qed
qed

lemma EntityEmbeddings_forward_entity:
  assumes "EntityEmbeddings_forward emb eids pos tts = Inr out"
    and "b < length out" "k < length (out ! b)"
  shows "\<exists>ee te pe.
     EntityEmbeddings_lookup emb eids = Inr ee \<and>
     traverse (traverse (Embedding_forward (ee_token_type_embeddings emb)))
       (case tts of None \<Rightarrow> map (map (\<lambda>_. 0)) eids | Some t \<Rightarrow> t) = Inr te \<and>
     EntityEmbeddings_position_embeddings (ee_position_embeddings emb)
       (hidden_size (ee_config emb)) (pos ! b ! k) = Inr (map Finite pe) \<and>
     b < length pos \<and> k < length (pos ! b) \<and>
     out ! b ! k =
       LayerNorm_forward (ee_LayerNorm emb) (vadd (vadd (ee ! b ! k) pe) (te ! b ! k))"
proof -
  let ?tt = "case tts of None \<Rightarrow> map (map (\<lambda>_. 0)) eids | Some t \<Rightarrow> t"
  let ?P = "EntityEmbeddings_position_embeddings (ee_position_embeddings emb)
       (hidden_size (ee_config emb))"
  from assms(1) obtain ee pq te pv where
    ee: "EntityEmbeddings_lookup emb eids = Inr ee"
    and pq: "traverse (traverse ?P) pos = Inr pq"
    and te: "traverse (traverse (Embedding_forward (ee_token_type_embeddings emb))) ?tt = Inr te"
    and pv: "traverse (traverse finite_vec) pq = Inr pv"
    and out: "out = map (map (LayerNorm_forward (ee_LayerNorm emb)))
                (map2 (map2 vadd) (map2 (map2 vadd) ee pv) te)"
    by (auto simp: EntityEmbeddings_forward_def Let_def dropout_def split: sum.splits)
  have b: "b < length ee" "b < length pv" "b < length te"
    using assms(2) unfolding out by simp_all
  have outb: "out ! b = map (LayerNorm_forward (ee_LayerNorm emb))
                (map2 vadd (map2 vadd (ee ! b) (pv ! b)) (te ! b))"
    unfolding out using b by simp
  have k: "k < length (ee ! b)" "k < length (pv ! b)" "k < length (te ! b)"
    using assms(3) unfolding outb by simp_all
  have outk: "out ! b ! k =
       LayerNorm_forward (ee_LayerNorm emb) (vadd (vadd (ee ! b ! k) (pv ! b ! k)) (te ! b ! k))"
    unfolding outb using k by simp
  from traverse_nth[OF pv] b have lq: "length pv = length pq"
    and pvb: "traverse finite_vec (pq ! b) = Inr (pv ! b)" by simp_all
  from traverse_nth[OF pvb] k have lqb: "length (pv ! b) = length (pq ! b)"
    and pvk: "finite_vec (pq ! b ! k) = Inr (pv ! b ! k)" by simp_all
  from traverse_nth[OF pq] b lq have lp: "length pq = length pos"
    and pqb: "traverse ?P (pos ! b) = Inr (pq ! b)" by simp_all
  from traverse_nth[OF pqb] k lqb have lpb: "length (pq ! b) = length (pos ! b)"
    and pqk: "?P (pos ! b ! k) = Inr (pq ! b ! k)" by simp_all
  have "?P (pos ! b ! k) = Inr (map Finite (pv ! b ! k))"
    using pqk finite_vec_Inr[OF pvk] by simp
  moreover have "b < length pos" "k < length (pos ! b)" using b k lq lp lqb lpb by simp_all
  ultimately show ?thesis using ee te outk by blast
qed

text \<open>
  Claim C4. For an entity whose clamped position ids are inside the position table, the
  division of line 118 has a divisor that is not zero, so every entry of the position
  contribution is a number, neither NaN nor infinite: the sum of the embeddings of the
  slots different from \<open>-1\<close> divided by their number plus \<open>1e-12\<close>. When every slot is
  \<open>-1\<close> the contribution is the zero vector. This contribution is what
  \<open>EntityEmbeddings.forward\<close> adds to the entity embedding and the segment embedding of
  the entity before the layer normalization.
\<close>

theorem EntityEmbeddings_position_average:
  assumes "\<forall>i\<in>set ids. max i 0 < int (length table)"
    and "\<forall>r\<in>set table. length r = h"
  shows "EntityEmbeddings_position_embeddings table h ids =
           Inr (map (\<lambda>a. Finite (a / (real (length (filter (\<lambda>i. i \<noteq> - 1) ids)) + 1 / 10 ^ 12)))
                  (sum_slots h (map (\<lambda>i. table ! nat (max i 0)) (filter (\<lambda>i. i \<noteq> - 1) ids))))
         \<and> ((\<forall>i\<in>set ids. i = - 1) \<longrightarrow>
              EntityEmbeddings_position_embeddings table h ids = Inr (replicate h (Finite 0)))
         \<and> (\<forall>emb eids pos tts out b k.
              ee_position_embeddings emb = table \<longrightarrow> hidden_size (ee_config emb) = h \<longrightarrow>
              EntityEmbeddings_forward emb eids pos tts = Inr out \<longrightarrow>
              b < length out \<longrightarrow> k < length (out ! b) \<longrightarrow> pos ! b ! k = ids \<longrightarrow>
              (\<exists>ee te.
                 EntityEmbeddings_lookup emb eids = Inr ee \<and>
                 traverse (traverse (Embedding_forward (ee_token_type_embeddings emb)))
                   (case tts of None \<Rightarrow> map (map (\<lambda>_. 0)) eids | Some t \<Rightarrow> t) = Inr te \<and>
                 out ! b ! k =
                   LayerNorm_forward (ee_LayerNorm emb)
                     (vadd (vadd (ee ! b ! k)
                        (map (\<lambda>a. a / (real (length (filter (\<lambda>i. i \<noteq> - 1) ids)) + 1 / 10 ^ 12))
                           (sum_slots h (map (\<lambda>i. table ! nat (max i 0))
                                           (filter (\<lambda>i. i \<noteq> - 1) ids)))))
                        (te ! b ! k))))"
proof -
  have inr: "nat (max i 0) < length table" if "i \<in> set ids" for i
  proof -
    from assms(1) that have "max i 0 < int (length table)" by blast
    then show ?thesis by linarith
  qed
  have look: "traverse (Embedding_forward table) (map (\<lambda>i. max i 0) ids)
        = Inr (map (\<lambda>i. table ! nat i) (map (\<lambda>i. max i 0) ids))"
  proof (rule traverse_Inr_map)
    fix x assume "x \<in> set (map (\<lambda>i. max i 0) ids)"
    then obtain i where "i \<in> set ids" "x = max i 0" by auto
    then show "Embedding_forward table x = Inr (table ! nat x)"
      using inr[of i] by (simp add: Embedding_forward_def)
  qed
  have rows: "length (table ! nat (max i 0)) = h" if "i \<in> set ids" for i
    using inr[OF that] assms(2) by simp
  have pos: "real (length (filter (\<lambda>i. i \<noteq> - 1) ids)) + 1 / 10 ^ 12 \<noteq> 0"
  proof -
    have "0 < real (length (filter (\<lambda>i. i \<noteq> - 1) ids)) + 1 / 10 ^ 12"
      by (rule add_nonneg_pos) simp_all
    then show ?thesis by simp
  qed
  let ?avg = "map (\<lambda>a. a / (real (length (filter (\<lambda>i. i \<noteq> - 1) ids)) + 1 / 10 ^ 12))
                (sum_slots h (map (\<lambda>i. table ! nat (max i 0)) (filter (\<lambda>i. i \<noteq> - 1) ids)))"
  have main: "EntityEmbeddings_position_embeddings table h ids =
           Inr (map (\<lambda>a. Finite (a / (real (length (filter (\<lambda>i. i \<noteq> - 1) ids)) + 1 / 10 ^ 12)))
                  (sum_slots h (map (\<lambda>i. table ! nat (max i 0)) (filter (\<lambda>i. i \<noteq> - 1) ids))))"
    unfolding EntityEmbeddings_position_embeddings_def look
    using sum_slots_masked[of ids "\<lambda>i. table ! nat (max i 0)" h, OF rows] pos
    by (simp add: Let_def sum_list_validity_mask o_def float_div_def)
  have main': "EntityEmbeddings_position_embeddings table h ids = Inr (map Finite ?avg)"
    unfolding main by (simp add: o_def)
  have zero: "EntityEmbeddings_position_embeddings table h ids = Inr (replicate h (Finite 0))"
    if "\<forall>i\<in>set ids. i = - 1"
  proof -
    have "filter (\<lambda>i. i \<noteq> - 1) ids = []" using that by (simp add: filter_empty_conv)
    then show ?thesis unfolding main by (simp add: sum_slots_def)
  qed
  have fwd: "\<exists>ee te.
         EntityEmbeddings_lookup emb eids = Inr ee \<and>
         traverse (traverse (Embedding_forward (ee_token_type_embeddings emb)))
           (case tts of None \<Rightarrow> map (map (\<lambda>_. 0)) eids | Some t \<Rightarrow> t) = Inr te \<and>
         out ! b ! k =
           LayerNorm_forward (ee_LayerNorm emb) (vadd (vadd (ee ! b ! k) ?avg) (te ! b ! k))"
    if "ee_position_embeddings emb = table" "hidden_size (ee_config emb) = h"
      "EntityEmbeddings_forward emb eids pos tts = Inr out"
      "b < length out" "k < length (out ! b)" "pos ! b ! k = ids"
    for emb eids pos tts out b k
  proof -
    from EntityEmbeddings_forward_entity[OF that(3,4,5)] obtain ee te pe where
      E: "EntityEmbeddings_lookup emb eids = Inr ee"
        "traverse (traverse (Embedding_forward (ee_token_type_embeddings emb)))
           (case tts of None \<Rightarrow> map (map (\<lambda>_. 0)) eids | Some t \<Rightarrow> t) = Inr te"
        "EntityEmbeddings_position_embeddings (ee_position_embeddings emb)
           (hidden_size (ee_config emb)) (pos ! b ! k) = Inr (map Finite pe)"
        "out ! b ! k =
           LayerNorm_forward (ee_LayerNorm emb) (vadd (vadd (ee ! b ! k) pe) (te ! b ! k))"
      by (elim exE conjE)
    from E(3) main' that(1,2,6) have "map Finite pe = map Finite ?avg" by simp
    then have "pe = ?avg" by (rule map_injective) (simp add: inj_def)
    with E(1,2,4) show ?thesis by blast
  qed
  show ?thesis
    apply (intro conjI)
    subgoal by (rule main)
    subgoal using zero by blast
    subgoal using fwd by blast
    done
qed

text \<open>
  The theorem of claim C4 at a table of two positions: an entity without a valid slot,
  and one with the slots \<open>1, -1, 0\<close>.
\<close>

theorem EntityEmbeddings_position_average_witness:
  "EntityEmbeddings_position_embeddings [[2, 4], [6, 8]] 2 [- 1, - 1] = Inr [Finite 0, Finite 0] \<and>
   EntityEmbeddings_position_embeddings [[2, 4], [6, 8]] 2 [1, - 1, 0] =
     Inr [Finite (8 / (2 + 1 / 10 ^ 12)), Finite (12 / (2 + 1 / 10 ^ 12))]"
  using EntityEmbeddings_position_average[of "[- 1, - 1]" "[[2, 4], [6, 8]]" 2]
    EntityEmbeddings_position_average[of "[1, - 1, 0]" "[[2, 4], [6, 8]]" 2]
  by (simp add: sum_slots_def vadd_def eval_nat_numeral)

text \<open>
  What the guard is for: the same division without the \<open>1e-12\<close> is \<open>0 / 0\<close> for an entity
  without a valid slot.
\<close>

lemma unguarded_division_is_NaN:
  "map (\<lambda>a. float_div a (sum_list (validity_mask [- 1, - 1]))) [0, 0] = [NotANumber, NotANumber]"
  by (simp add: float_div_def validity_mask_def)

subsection \<open>SelfAttention: joint attention, split at the word length\<close>

lemma sum_list_map2_nth:
  "length xs = length ys \<Longrightarrow>
     sum_list (map2 f xs ys) = (\<Sum>j<length xs. f (xs ! j) (ys ! j) :: real)"
proof -
  assume l: "length xs = length ys"
  have "sum_list (map2 f xs ys) = (\<Sum>j = 0..<length (map2 f xs ys). map2 f xs ys ! j)"
    by (rule sum_list_sum_nth)
  also have "\<dots> = (\<Sum>j = 0..<length xs. f (xs ! j) (ys ! j))"
    using l by (intro sum.cong) simp_all
  finally show ?thesis by (simp add: atLeast0LessThan)
qed

lemma length_transpose_for_scores:
  "length (transpose_for_scores sa x) = sa_num_attention_heads sa"
  "h < sa_num_attention_heads sa \<Longrightarrow> length (transpose_for_scores sa x ! h) = length x"
  "h < sa_num_attention_heads sa \<Longrightarrow> i < length x \<Longrightarrow>
     transpose_for_scores sa x ! h ! i =
       take (sa_attention_head_size sa) (drop (h * sa_attention_head_size sa) (x ! i))"
  by (simp_all add: transpose_for_scores_def)

lemma scaled_scores_nth:
  assumes "h < sa_num_attention_heads sa" "i < length hs" "j < length hs"
  shows "length (scaled_attention_scores sa hs) = sa_num_attention_heads sa"
    "length (scaled_attention_scores sa hs ! h) = length hs"
    "length (scaled_attention_scores sa hs ! h ! i) = length hs"
    "scaled_attention_scores sa hs ! h ! i ! j =
       dot (transpose_for_scores sa (map (Linear_forward (sa_query sa)) hs) ! h ! i)
           (transpose_for_scores sa (map (Linear_forward (sa_key sa)) hs) ! h ! j)
         / sqrt (real (sa_attention_head_size sa))"
  using assms
  by (simp_all add: scaled_attention_scores_def Let_def length_transpose_for_scores)

lemma softmax_nth:
  assumes "j < length xs"
  shows "softmax xs ! j = exp (xs ! j) / (\<Sum>k<length xs. exp (xs ! k))"
    "0 < softmax xs ! j"
proof -
  have s: "sum_list (map exp xs) = (\<Sum>k<length xs. exp (xs ! k))"
    using sum_list_sum_nth[of "map exp xs"] by (simp add: atLeast0LessThan)
  show "softmax xs ! j = exp (xs ! j) / (\<Sum>k<length xs. exp (xs ! k))"
    using assms by (simp add: softmax_def s)
  have "0 < (\<Sum>k<length xs. exp (xs ! k))"
    by (rule sum_pos) (use assms in auto)
  then show "0 < softmax xs ! j"
    using assms by (simp add: softmax_def s)
qed

lemma softmax_sum:
  assumes "xs \<noteq> []"
  shows "(\<Sum>j<length xs. softmax xs ! j) = 1"
proof -
  have pos: "0 < (\<Sum>k<length xs. exp (xs ! k))"
    by (rule sum_pos) (use assms in auto)
  have "(\<Sum>j<length xs. softmax xs ! j)
      = (\<Sum>j<length xs. exp (xs ! j) / (\<Sum>k<length xs. exp (xs ! k)))"
    by (intro sum.cong) (simp_all add: softmax_nth(1))
  also have "\<dots> = (\<Sum>j<length xs. exp (xs ! j)) / (\<Sum>k<length xs. exp (xs ! k))"
    by (rule sum_divide_distrib[symmetric])
  finally show ?thesis using pos by simp
qed

lemma attention_probs_nth:
  assumes "h < sa_num_attention_heads sa" "i < length hs" "j < length hs"
    and "length m = length hs"
  shows "length (attention_probs sa hs m ! h ! i) = length hs"
    "attention_probs sa hs m ! h ! i ! j =
       exp (scaled_attention_scores sa hs ! h ! i ! j + m ! j) /
       (\<Sum>k<length hs. exp (scaled_attention_scores sa hs ! h ! i ! k + m ! k))"
    "0 < attention_probs sa hs m ! h ! i ! j"
    "(\<Sum>k<length hs. attention_probs sa hs m ! h ! i ! k) = 1"
proof -
  let ?row = "vadd (scaled_attention_scores sa hs ! h ! i) m"
  have p: "attention_probs sa hs m ! h ! i = softmax ?row"
    using assms(1,2) scaled_scores_nth(1,2)[OF assms(1,2,3)]
    by (simp add: attention_probs_def attention_scores_def dropout_def)
  have lr: "length ?row = length hs"
    using scaled_scores_nth(3)[OF assms(1,2,3)] assms(4) by (simp add: vadd_def)
  have rn: "?row ! k = scaled_attention_scores sa hs ! h ! i ! k + m ! k" if "k < length hs" for k
    using that scaled_scores_nth(3)[OF assms(1,2,3)] assms(4) by (simp add: vadd_def)
  show "length (attention_probs sa hs m ! h ! i) = length hs"
    unfolding p using lr by (simp add: softmax_def)
  show "attention_probs sa hs m ! h ! i ! j =
       exp (scaled_attention_scores sa hs ! h ! i ! j + m ! j) /
       (\<Sum>k<length hs. exp (scaled_attention_scores sa hs ! h ! i ! k + m ! k))"
    unfolding p using softmax_nth(1)[of j ?row] assms(3) lr rn by simp
  show "0 < attention_probs sa hs m ! h ! i ! j"
    unfolding p using softmax_nth(2)[of j ?row] assms(3) lr by simp
  have "?row \<noteq> []" using lr assms(2) by auto
  from softmax_sum[OF this] show "(\<Sum>k<length hs. attention_probs sa hs m ! h ! i ! k) = 1"
    unfolding p lr .
qed

lemma context_layer_nth:
  assumes "i < length hs" "length m = length hs"
  shows "context_layer sa hs m ! i =
     concat (map (\<lambda>h. map (\<lambda>d. \<Sum>j<length hs.
                 attention_probs sa hs m ! h ! i ! j *
                 transpose_for_scores sa (map (Linear_forward (sa_value sa)) hs) ! h ! j ! d)
               [0..<sa_attention_head_size sa])
        [0..<sa_num_attention_heads sa])"
proof -
  let ?V = "transpose_for_scores sa (map (Linear_forward (sa_value sa)) hs)"
  let ?P = "attention_probs sa hs m"
  let ?C = "map2 (\<lambda>p v. map (\<lambda>p_i. map (\<lambda>d. sum_list (map2 (\<lambda>p_ij v_j. p_ij * v_j ! d) p_i v))
                                   [0..<sa_attention_head_size sa]) p) ?P ?V"
  have lP: "length ?P = sa_num_attention_heads sa"
    by (simp add: attention_probs_def attention_scores_def scaled_attention_scores_def Let_def
        length_transpose_for_scores)
  have lPh: "length (?P ! h) = length hs" if "h < sa_num_attention_heads sa" for h
    using that
    by (simp add: attention_probs_def attention_scores_def scaled_attention_scores_def Let_def
        length_transpose_for_scores)
  have lC: "length ?C = sa_num_attention_heads sa"
    using lP by (simp add: length_transpose_for_scores)
  have Ch: "?C ! h ! i = map (\<lambda>d. \<Sum>j<length hs. ?P ! h ! i ! j * ?V ! h ! j ! d)
               [0..<sa_attention_head_size sa]"
    if h: "h < sa_num_attention_heads sa" for h
  proof -
    have len: "length (?P ! h ! i) = length (?V ! h)"
      using attention_probs_nth(1)[OF h assms(1) assms(1) assms(2)]
        length_transpose_for_scores(2)[OF h, of "map (Linear_forward (sa_value sa)) hs"]
      by simp
    have "?C ! h ! i = map (\<lambda>d. sum_list (map2 (\<lambda>p_ij v_j. p_ij * v_j ! d) (?P ! h ! i) (?V ! h)))
               [0..<sa_attention_head_size sa]"
      using h lP lPh[OF h] assms(1) by (simp add: length_transpose_for_scores)
    also have "\<dots> = map (\<lambda>d. \<Sum>j<length hs. ?P ! h ! i ! j * ?V ! h ! j ! d)
               [0..<sa_attention_head_size sa]"
      using sum_list_map2_nth[OF len] attention_probs_nth(1)[OF h assms(1) assms(1) assms(2)]
      by simp
    finally show ?thesis .
  qed
  have "context_layer sa hs m ! i = concat (map (\<lambda>c. c ! i) ?C)"
    using assms(1) by (simp add: context_layer_def Let_def)
  also have "map (\<lambda>c. c ! i) ?C = map (\<lambda>h. ?C ! h ! i) [0..<sa_num_attention_heads sa]"
    using lC by (intro nth_equalityI) simp_all
  also have "\<dots> = map (\<lambda>h. map (\<lambda>d. \<Sum>j<length hs. ?P ! h ! i ! j * ?V ! h ! j ! d)
               [0..<sa_attention_head_size sa]) [0..<sa_num_attention_heads sa]"
    using Ch by (intro map_cong) simp_all
  finally show ?thesis .
qed


lemma example_attention_forward:
  "SelfAttention_forward example_attention [[a]] [[b]] [0, 0] = ([[(a + b) / 2]], [[(a + b) / 2]])"
  by (simp add: SelfAttention_forward_def context_layer_def attention_probs_def
      attention_scores_def scaled_attention_scores_def transpose_for_scores_def
      Linear_forward_def dot_def vadd_def softmax_def dropout_def example_attention_def Let_def
      add_divide_distrib)

lemma length_context_layer: "length (context_layer sa hs m) = length hs"
  by (simp add: context_layer_def Let_def)

text \<open>
  Claim C1. With a mask of the joint length, \<open>SelfAttention.forward\<close> computes the
  context layer of the joint sequence, the word stream followed by the entity stream,
  which has one row per joint position; the word output is its first \<open>W\<close> rows and the
  entity output the remaining \<open>E\<close> rows, so the outputs have the lengths of the two
  input streams. Every row of the context layer, hence every output position of either
  stream, is for each head the sum over all \<open>W + E\<close> joint positions of the attention
  probability times the value vector of that position; the probability is the softmax of
  the scaled product of the query of the output position and the key of the attended
  position plus the mask, it is strictly positive for every joint position and sums to
  one over them. An output of one stream depends on the other stream: there are inputs
  where changing the other stream alone changes it.
\<close>

theorem SelfAttention_forward_split:
  assumes "length m = length w + length e"
  shows "fst (SelfAttention_forward sa w e m) = take (length w) (context_layer sa (w @ e) m) \<and>
   snd (SelfAttention_forward sa w e m) = drop (length w) (context_layer sa (w @ e) m) \<and>
   length (context_layer sa (w @ e) m) = length w + length e \<and>
   length (fst (SelfAttention_forward sa w e m)) = length w \<and>
   length (snd (SelfAttention_forward sa w e m)) = length e \<and>
   (\<forall>i<length w. fst (SelfAttention_forward sa w e m) ! i = context_layer sa (w @ e) m ! i) \<and>
   (\<forall>i<length e. snd (SelfAttention_forward sa w e m) ! i
                    = context_layer sa (w @ e) m ! (length w + i)) \<and>
   (\<forall>i<length w + length e.
      context_layer sa (w @ e) m ! i =
        concat (map (\<lambda>h. map (\<lambda>d. \<Sum>j<length w + length e.
                    attention_probs sa (w @ e) m ! h ! i ! j *
                    transpose_for_scores sa (map (Linear_forward (sa_value sa)) (w @ e)) ! h ! j ! d)
                  [0..<sa_attention_head_size sa])
           [0..<sa_num_attention_heads sa])) \<and>
   (\<forall>h<sa_num_attention_heads sa. \<forall>i<length w + length e. \<forall>j<length w + length e.
      attention_probs sa (w @ e) m ! h ! i ! j =
        exp (scaled_attention_scores sa (w @ e) ! h ! i ! j + m ! j) /
        (\<Sum>k<length w + length e. exp (scaled_attention_scores sa (w @ e) ! h ! i ! k + m ! k)) \<and>
      0 < attention_probs sa (w @ e) m ! h ! i ! j \<and>
      scaled_attention_scores sa (w @ e) ! h ! i ! j =
        dot (take (sa_attention_head_size sa) (drop (h * sa_attention_head_size sa)
               (Linear_forward (sa_query sa) ((w @ e) ! i))))
            (take (sa_attention_head_size sa) (drop (h * sa_attention_head_size sa)
               (Linear_forward (sa_key sa) ((w @ e) ! j))))
          / sqrt (real (sa_attention_head_size sa)) \<and>
      transpose_for_scores sa (map (Linear_forward (sa_value sa)) (w @ e)) ! h ! j =
        take (sa_attention_head_size sa) (drop (h * sa_attention_head_size sa)
          (Linear_forward (sa_value sa) ((w @ e) ! j)))) \<and>
   (\<forall>h<sa_num_attention_heads sa. \<forall>i<length w + length e.
      (\<Sum>j<length w + length e. attention_probs sa (w @ e) m ! h ! i ! j) = 1) \<and>
   (\<exists>sa' w' e1 e2 m'. fst (SelfAttention_forward sa' w' e1 m')
                        \<noteq> fst (SelfAttention_forward sa' w' e2 m')) \<and>
   (\<exists>sa' w1 w2 e' m'. snd (SelfAttention_forward sa' w1 e' m')
                        \<noteq> snd (SelfAttention_forward sa' w2 e' m'))"
proof -
  let ?hs = "w @ e"
  have L: "length ?hs = length w + length e" by simp
  have m: "length m = length ?hs" using assms by simp
  have "fst (SelfAttention_forward example_attention [[1]] [[3]] [0, 0])
        \<noteq> fst (SelfAttention_forward example_attention [[1]] [[5]] [0, 0])"
    by (simp add: example_attention_forward)
  then have dep_entity: "\<exists>sa' w' e1 e2 m'. fst (SelfAttention_forward sa' w' e1 m')
                        \<noteq> fst (SelfAttention_forward sa' w' e2 m')"
    by blast
  have "snd (SelfAttention_forward example_attention [[1]] [[3]] [0, 0])
        \<noteq> snd (SelfAttention_forward example_attention [[5]] [[3]] [0, 0])"
    by (simp add: example_attention_forward)
  then have dep_word: "\<exists>sa' w1 w2 e' m'. snd (SelfAttention_forward sa' w1 e' m')
                        \<noteq> snd (SelfAttention_forward sa' w2 e' m')"
    by blast
  have split: "fst (SelfAttention_forward sa w e m) = take (length w) (context_layer sa ?hs m)"
    "snd (SelfAttention_forward sa w e m) = drop (length w) (context_layer sa ?hs m)"
    by (simp_all add: SelfAttention_forward_def Let_def)
  have lens: "length (context_layer sa ?hs m) = length w + length e"
    "length (fst (SelfAttention_forward sa w e m)) = length w"
    "length (snd (SelfAttention_forward sa w e m)) = length e"
    unfolding split by (simp_all add: length_context_layer)
  have rows_w: "fst (SelfAttention_forward sa w e m) ! i = context_layer sa ?hs m ! i"
    if "i < length w" for i
    unfolding split using that by simp
  have rows_e: "snd (SelfAttention_forward sa w e m) ! i = context_layer sa ?hs m ! (length w + i)"
    if "i < length e" for i
    unfolding split using that by (simp add: length_context_layer)
  have ctx: "context_layer sa ?hs m ! i =
        concat (map (\<lambda>h. map (\<lambda>d. \<Sum>j<length w + length e.
                    attention_probs sa ?hs m ! h ! i ! j *
                    transpose_for_scores sa (map (Linear_forward (sa_value sa)) ?hs) ! h ! j ! d)
                  [0..<sa_attention_head_size sa])
           [0..<sa_num_attention_heads sa])"
    if "i < length w + length e" for i
    using context_layer_nth[of i ?hs m sa] that m unfolding L by simp
  have probs: "attention_probs sa ?hs m ! h ! i ! j =
        exp (scaled_attention_scores sa ?hs ! h ! i ! j + m ! j) /
        (\<Sum>k<length w + length e. exp (scaled_attention_scores sa ?hs ! h ! i ! k + m ! k)) \<and>
      0 < attention_probs sa ?hs m ! h ! i ! j \<and>
      scaled_attention_scores sa ?hs ! h ! i ! j =
        dot (take (sa_attention_head_size sa) (drop (h * sa_attention_head_size sa)
               (Linear_forward (sa_query sa) (?hs ! i))))
            (take (sa_attention_head_size sa) (drop (h * sa_attention_head_size sa)
               (Linear_forward (sa_key sa) (?hs ! j))))
          / sqrt (real (sa_attention_head_size sa)) \<and>
      transpose_for_scores sa (map (Linear_forward (sa_value sa)) ?hs) ! h ! j =
        take (sa_attention_head_size sa) (drop (h * sa_attention_head_size sa)
          (Linear_forward (sa_value sa) (?hs ! j)))"
    if "h < sa_num_attention_heads sa" "i < length w + length e" "j < length w + length e"
    for h i j
  proof -
    have i: "i < length ?hs" and j: "j < length ?hs" using that by simp_all
    have tfs: "transpose_for_scores sa (map (Linear_forward f) ?hs) ! h ! k =
        take (sa_attention_head_size sa) (drop (h * sa_attention_head_size sa)
          (Linear_forward f (?hs ! k)))" if "k < length ?hs" for f k
    proof -
      have "k < length (map (Linear_forward f) ?hs)" using that by (simp only: length_map)
      from length_transpose_for_scores(3)[OF \<open>h < sa_num_attention_heads sa\<close> this]
      show ?thesis using that by (simp only: nth_map)
    qed
    have a: "attention_probs sa ?hs m ! h ! i ! j =
        exp (scaled_attention_scores sa ?hs ! h ! i ! j + m ! j) /
        (\<Sum>k<length w + length e. exp (scaled_attention_scores sa ?hs ! h ! i ! k + m ! k))"
      using attention_probs_nth(2)[OF that(1) i j m] unfolding L .
    have b: "0 < attention_probs sa ?hs m ! h ! i ! j"
      by (rule attention_probs_nth(3)[OF that(1) i j m])
    have c: "scaled_attention_scores sa ?hs ! h ! i ! j =
        dot (take (sa_attention_head_size sa) (drop (h * sa_attention_head_size sa)
               (Linear_forward (sa_query sa) (?hs ! i))))
            (take (sa_attention_head_size sa) (drop (h * sa_attention_head_size sa)
               (Linear_forward (sa_key sa) (?hs ! j))))
          / sqrt (real (sa_attention_head_size sa))"
      using scaled_scores_nth(4)[OF that(1) i j] unfolding tfs[OF i] tfs[OF j] .
    from a b c tfs[OF j, of "sa_value sa"] show ?thesis by blast
  qed
  have total: "(\<Sum>j<length w + length e. attention_probs sa ?hs m ! h ! i ! j) = 1"
    if "h < sa_num_attention_heads sa" "i < length w + length e" for h i
  proof -
    have i: "i < length ?hs" using that by simp
    show ?thesis using attention_probs_nth(4)[OF that(1) i i m] unfolding L .
  qed
  show ?thesis
    using split lens rows_w rows_e ctx probs total dep_entity dep_word by blast
qed

text \<open>
  The theorem of claim C1 at the example module, one word and one entity: the word output
  is the mean of the word and the entity feature.
\<close>

theorem SelfAttention_forward_split_witness:
  "SelfAttention_forward example_attention [[1]] [[3]] [0, 0] = ([[2]], [[2]]) \<and>
   attention_probs example_attention ([[1]] @ [[3]]) [0, 0] ! 0 ! 0 ! 1 = 1 / 2 \<and>
   context_layer example_attention ([[1]] @ [[3]]) [0, 0] ! 0 = [2]"
proof -
  have run: "SelfAttention_forward example_attention [[1]] [[3]] [0, 0] = ([[2]], [[2]])"
    by (simp add: example_attention_forward)
  have h: "length [0, 0 :: real] = length [[1 :: real]] + length [[3 :: real]]" by simp
  from SelfAttention_forward_split[OF h, of example_attention]
  have "fst (SelfAttention_forward example_attention [[1]] [[3]] [0, 0]) ! 0
          = context_layer example_attention ([[1]] @ [[3]]) [0, 0] ! 0"
    by simp
  then have c: "context_layer example_attention ([[1]] @ [[3]]) [0, 0] ! 0 = [2]"
    using run by simp
  have p: "attention_probs example_attention ([[1]] @ [[3]]) [0, 0] ! 0 ! 0 ! 1 = 1 / 2"
    by (simp add: attention_probs_def attention_scores_def scaled_attention_scores_def
        transpose_for_scores_def Linear_forward_def dot_def vadd_def softmax_def dropout_def
        example_attention_def Let_def)
  from run p c show ?thesis by simp
qed

subsection \<open>Masked positions and their labels\<close>

















subsection \<open>The pretraining loss\<close>

lemmas ret_ops = store_metrics_def ret_new_def ret_assign_def ret_iadd_def add_to_loss_def
  dict_set_def dict_get_def ret_lookup_def scalar_add_def

lemma pretraining_ret_loss:
  assumes "pretraining_ret erf m w e p b el ll nl = Inr ret"
  shows "ret_lookup ret ''loss'' =
     Some (map_option FloatT
       (spec_total_loss (loss_of (map_option (masked_entity_metrics erf m e) el))
          (loss_of (map_option (masked_lm_metrics erf m w) ll))
          (loss_of (map_option (\<lambda>l. nsp_metrics m p l b) nl))))"
  using assms
  by (cases el; cases ll; cases nl)
    (auto simp: pretraining_ret_def ret_ops spec_total_loss_def List.map_filter_simps
      split: sum.splits)

lemmas forward_defs = LukeModel_forward_def LukeModel_attention_mask_def cat_dim1_def
  WordEmbeddings_forward_def WordEmbeddings_forward_row_def Embedding_forward_def
  EntityEmbeddings_forward_def EntityEmbeddings_lookup_def
  EntityEmbeddings_position_embeddings_def validity_mask_def sum_slots_def float_div_def
  finite_vec_def
  Encoder_forward_def Pooler_forward_def LayerNorm_forward_def LayerNorm_normalized_def
  LayerNorm_init_def Linear_forward_def dot_def vadd_def mean_def dropout_def Let_def

lemma ex_base:
  "LukeModel_forward (\<lambda>x. 0) (pm_base example_model) (Some [[0]]) (Some [[0]]) (Some [[1]])
     (Some [[0]]) (Some [[[0]]]) (Some [[0]]) (Some [[1]]) False
   = Inr (LastLayer ([[[0]]], [[[0]]]), [[0]])"
  by (simp add: forward_defs example_model_def example_config_def)

lemma ex_metrics:
  "masked_entity_metrics (\<lambda>x. 0) example_model [[[0]]] [[0]] = Inr (Val 0, 1, 1)"
  by (simp add: masked_entity_metrics_def masked_metrics_def gather_masked_def
      masked_select_rows_def masked_select_def view_rows_def branch_scores_def
      branch_metrics_def CrossEntropyLoss_def softmax_def correct_count_def argmax_def
      PredictionHead_forward_def PredictionHeadTransform_forward_def gelu_def
      LayerNorm_forward_def LayerNorm_normalized_def
      LayerNorm_init_def Linear_forward_def dot_def vadd_def mean_def Let_def
      example_model_def example_config_def example_head_def)


lemma LukeModel_forward_last:
  assumes "LukeModel_forward erf m wi ws wm ei ep es em False = Inr (enc, p)"
  shows "\<exists>w e. enc = LastLayer (w, e)"
  using assms
  by (auto simp: LukeModel_forward_def Let_def split: sum.splits if_splits)

lemma pretraining_ret_no_labels:
  "pretraining_ret erf m w e p b None None None = Inr \<lparr>rs_dict = [(''loss'', PyNone)], rs_heap = []\<rparr>"
  by (simp add: pretraining_ret_def)

text \<open>
  Claim C2. When \<open>LukePretrainingModel.forward\<close> returns, the base model returned the
  final pair of streams and the \<open>loss\<close> entry is the sum of the cross-entropy terms of
  the label arguments that are present, and \<open>None\<close> when none is; with only the
  masked-entity labels it is the masked-entity cross-entropy term; and without labels the
  result is the mapping with the single entry \<open>loss: None\<close>, returned whenever the base
  model returns.
\<close>

theorem pretraining_loss:
  assumes "LukePretrainingModel_forward erf m wi ws wm ei ep es em el ll nl = Inr ret"
  shows "\<exists>w e p.
     LukeModel_forward erf (pm_base m) wi ws wm ei ep es em False = Inr (LastLayer (w, e), p) \<and>
     ret_lookup ret ''loss'' =
       Some (map_option FloatT
         (spec_total_loss (loss_of (map_option (masked_entity_metrics erf m e) el))
            (loss_of (map_option (masked_lm_metrics erf m w) ll))
            (loss_of (map_option (\<lambda>l. nsp_metrics m p l (case wi of None \<Rightarrow> 0 | Some ids \<Rightarrow> length ids)) nl)))) \<and>
     (el = None \<and> ll = None \<and> nl = None \<longrightarrow>
        ret = \<lparr>rs_dict = [(''loss'', PyNone)], rs_heap = []\<rparr> \<and>
        ret_lookup ret ''loss'' = Some None) \<and>
     (\<forall>labels. el = Some labels \<and> ll = None \<and> nl = None \<longrightarrow>
        (\<exists>l c t. masked_entity_metrics erf m e labels = Inr (l, c, t) \<and>
           ret_lookup ret ''loss'' = Some (Some (FloatT l)) \<and>
           ret_lookup ret ''masked_entity_loss'' = Some (Some (FloatT l)))) \<and>
     (\<forall>r. LukeModel_forward erf (pm_base m) wi ws wm ei ep es em False = Inr r \<longrightarrow>
        LukePretrainingModel_forward erf m wi ws wm ei ep es em None None None =
          Inr \<lparr>rs_dict = [(''loss'', PyNone)], rs_heap = []\<rparr>)"
proof -
  from assms obtain enc p where
    base: "LukeModel_forward erf (pm_base m) wi ws wm ei ep es em False = Inr (enc, p)"
    by (auto simp: LukePretrainingModel_forward_def split: sum.splits)
  from LukeModel_forward_last[OF base] obtain w e where enc: "enc = LastLayer (w, e)"
    by blast
  let ?b = "case wi of None \<Rightarrow> 0 | Some ids \<Rightarrow> length ids"
  have fw: "LukePretrainingModel_forward erf m wi ws wm ei ep es em el' ll' nl' =
      pretraining_ret erf m w e p ?b el' ll' nl'" for el' ll' nl'
    by (simp add: LukePretrainingModel_forward_def base enc)
  have ret: "pretraining_ret erf m w e p ?b el ll nl = Inr ret"
    using assms fw by simp
  have total: "ret_lookup ret ''loss'' =
       Some (map_option FloatT
         (spec_total_loss (loss_of (map_option (masked_entity_metrics erf m e) el))
            (loss_of (map_option (masked_lm_metrics erf m w) ll))
            (loss_of (map_option (\<lambda>l. nsp_metrics m p l ?b) nl))))"
    by (rule pretraining_ret_loss[OF ret])
  have none: "ret = \<lparr>rs_dict = [(''loss'', PyNone)], rs_heap = []\<rparr> \<and>
        ret_lookup ret ''loss'' = Some None"
    if "el = None \<and> ll = None \<and> nl = None"
  proof -
    from ret that have "ret = \<lparr>rs_dict = [(''loss'', PyNone)], rs_heap = []\<rparr>"
      by (simp add: pretraining_ret_no_labels)
    then show ?thesis by (simp add: ret_lookup_def dict_get_def)
  qed
  have only_entity: "\<exists>l c t. masked_entity_metrics erf m e labels = Inr (l, c, t) \<and>
           ret_lookup ret ''loss'' = Some (Some (FloatT l)) \<and>
           ret_lookup ret ''masked_entity_loss'' = Some (Some (FloatT l))"
    if "el = Some labels \<and> ll = None \<and> nl = None" for labels
    using ret that
    by (auto simp: pretraining_ret_def ret_ops split: sum.splits)
  have noexc: "LukePretrainingModel_forward erf m wi ws wm ei ep es em None None None =
          Inr \<lparr>rs_dict = [(''loss'', PyNone)], rs_heap = []\<rparr>"
    unfolding fw by (rule pretraining_ret_no_labels)
  show ?thesis
    using base[unfolded enc] total none only_entity noexc by blast
qed

text \<open>
  The theorem of claim C2 at the example model on a batch of one example with one word and
  one entity, the entity being masked.
\<close>

theorem pretraining_loss_witness:
  "LukePretrainingModel_forward (\<lambda>x. 0) example_model (Some [[0]]) (Some [[0]]) (Some [[1]])
     (Some [[0]]) (Some [[[0]]]) (Some [[0]]) (Some [[1]]) (Some [[0]]) None None
   = Inr \<lparr>rs_dict = [(''loss'', Ref 0), (''masked_entity_loss'', Ref 0),
                     (''masked_entity_correct'', Ref 1), (''masked_entity_total'', Ref 2)],
          rs_heap = [FloatT (Val 0), LongT 1, LongT 1]\<rparr> \<and>
   ret_lookup \<lparr>rs_dict = [(''loss'', Ref 0), (''masked_entity_loss'', Ref 0),
                     (''masked_entity_correct'', Ref 1), (''masked_entity_total'', Ref 2)],
          rs_heap = [FloatT (Val 0), LongT 1, LongT 1]\<rparr> ''loss'' = Some (Some (FloatT (Val 0)))"
proof -
  have run: "LukePretrainingModel_forward (\<lambda>x. 0) example_model (Some [[0]]) (Some [[0]])
     (Some [[1]]) (Some [[0]]) (Some [[[0]]]) (Some [[0]]) (Some [[1]]) (Some [[0]]) None None
   = Inr \<lparr>rs_dict = [(''loss'', Ref 0), (''masked_entity_loss'', Ref 0),
                     (''masked_entity_correct'', Ref 1), (''masked_entity_total'', Ref 2)],
          rs_heap = [FloatT (Val 0), LongT 1, LongT 1]\<rparr>"
    by (simp add: LukePretrainingModel_forward_def ex_base pretraining_ret_def ex_metrics ret_ops)
  from pretraining_loss[OF run] run show ?thesis
    by (auto simp: ex_base ex_metrics spec_total_loss_def List.map_filter_simps)
qed

text \<open>
  An observation on the entries besides \<open>loss\<close>: the first loss stored under \<open>loss\<close> is the
  tensor of its branch, and the later in-place additions write through it. With entity and
  word labels the entry \<open>masked_entity_loss\<close> reads the sum as well.
\<close>

lemma masked_entity_loss_is_overwritten:
  assumes "masked_entity_metrics erf m e el = Inr (l1, c1, t1)"
    and "masked_lm_metrics erf m w ll = Inr (l2, c2, t2)"
  shows "\<exists>ret. pretraining_ret erf m w e p b (Some el) (Some ll) None = Inr ret \<and>
     ret_lookup ret ''loss'' = Some (Some (FloatT (loss_add l1 l2))) \<and>
     ret_lookup ret ''masked_entity_loss'' = Some (Some (FloatT (loss_add l1 l2))) \<and>
     ret_lookup ret ''masked_lm_loss'' = Some (Some (FloatT l2))"
  using assms by (simp add: pretraining_ret_def ret_ops)

subsection \<open>The layers of the encoder\<close>







lemma Encoder_loop_eq:
  "Encoder_loop erf ls w e m all acc =
     (foldl (\<lambda>(w, e) l. Layer_forward_batch erf l w e m) (w, e) ls,
      acc @ (if all
             then map (\<lambda>k. foldl (\<lambda>(w, e) l. Layer_forward_batch erf l w e m) (w, e)
                               (take (Suc k) ls)) [0..<length ls]
             else []))"
proof (induction ls arbitrary: w e acc)
  case Nil
  then show ?case by simp
next
  case (Cons l ls)
  obtain w1 e1 where step: "Layer_forward_batch erf l w e m = (w1, e1)"
    by (cases "Layer_forward_batch erf l w e m")
  have shift: "map (\<lambda>k. foldl (\<lambda>(w, e) l. Layer_forward_batch erf l w e m) (w, e)
                               (take (Suc k) (l # ls))) [0..<length (l # ls)]
      = (w1, e1) # map (\<lambda>k. foldl (\<lambda>(w, e) l. Layer_forward_batch erf l w e m) (w1, e1)
                               (take (Suc k) ls)) [0..<length ls]"
    using step by (simp add: map_upt_Suc del: upt_Suc)
  show ?case
    using step Cons.IH[of w1 e1] shift by simp
qed

lemma Encoder_forward_eq:
  "Encoder_forward erf ls w e m True =
     map (\<lambda>k. foldl (\<lambda>(w, e) l. Layer_forward_batch erf l w e m) (w, e) (take (Suc k) ls))
       [0..<length ls]"
  "Encoder_forward erf ls w e m False =
     [foldl (\<lambda>(w, e) l. Layer_forward_batch erf l w e m) (w, e) ls]"
  by (simp_all add: Encoder_forward_def Encoder_loop_eq split: prod.splits)




subsection \<open>The attention mask in the forward pass\<close>

lemma Layer_forward_batch_nth:
  assumes "b < length w" "b < length e" "b < length a"
  shows "fst (Layer_forward_batch erf l w e a) ! b = fst (Layer_forward erf l (w ! b) (e ! b) (a ! b))"
    "snd (Layer_forward_batch erf l w e a) ! b = snd (Layer_forward erf l (w ! b) (e ! b) (a ! b))"
  using assms by (simp_all add: Layer_forward_batch_def Let_def)

lemma Layer_forward_unfold:
  "Layer_forward erf l w e a =
     (let sa = att_self (ly_attention l);
          c = context_layer sa (w @ e) a;
          wo = SelfOutput_forward (att_output (ly_attention l)) (take (length w) c) w;
          eo = SelfOutput_forward (att_output (ly_attention l)) (drop (length w) c) e
      in (Output_forward (ly_output l) (Intermediate_forward erf (ly_intermediate l) wo) wo,
          Output_forward (ly_output l) (Intermediate_forward erf (ly_intermediate l) eo) eo))"
  by (simp add: Layer_forward_def Attention_forward_def SelfAttention_forward_def Let_def)

lemma LukeModel_forward_parts:
  assumes "LukeModel_forward erf m (Some wi) ws (Some wm) (Some ei) (Some ep) es (Some em) all
             = Inr (enc, pooled)"
  shows "\<exists>ext we ee.
     LukeModel_attention_mask (Some wm) (Some em) = Inr ext \<and>
     WordEmbeddings_forward (lm_embeddings m) wi ws = Inr we \<and>
     EntityEmbeddings_forward (lm_entity_embeddings m) ei ep es = Inr ee \<and>
     enc = (if all then AllLayers (Encoder_forward erf (lm_encoder m) we ee ext True)
            else LastLayer (last (Encoder_forward erf (lm_encoder m) we ee ext False)))"
proof (cases "LukeModel_attention_mask (Some wm) (Some em)")
  case (Inl x)
  with assms show ?thesis by (simp add: LukeModel_forward_def)
next
  case ext: (Inr ext)
  show ?thesis
  proof (cases "WordEmbeddings_forward (lm_embeddings m) wi ws")
    case (Inl x)
    with assms ext show ?thesis by (simp add: LukeModel_forward_def)
  next
    case we: (Inr we)
    show ?thesis
    proof (cases "EntityEmbeddings_forward (lm_entity_embeddings m) ei ep es")
      case (Inl x)
      with assms ext we show ?thesis by (simp add: LukeModel_forward_def)
    next
      case ee: (Inr ee)
      from assms ext we ee show ?thesis
        by (cases all) (auto simp: LukeModel_forward_def Let_def split: if_splits sum.splits)
    qed
  qed
qed


lemmas forward_defs2 = LukeModel_forward_def LukeModel_attention_mask_def cat_dim1_def
  WordEmbeddings_forward_def WordEmbeddings_forward_row_def Embedding_forward_def
  EntityEmbeddings_forward_def EntityEmbeddings_lookup_def
  EntityEmbeddings_position_embeddings_def validity_mask_def sum_slots_def float_div_def
  finite_vec_def
  Encoder_forward_def Pooler_forward_def LayerNorm_forward_def LayerNorm_normalized_def
  LayerNorm_init_def Linear_forward_def dot_def vadd_def mean_def dropout_def Let_def
  Layer_forward_batch_def Layer_forward_def Attention_forward_def SelfAttention_forward_def
  context_layer_def attention_probs_def attention_scores_def scaled_attention_scores_def
  transpose_for_scores_def softmax_def SelfOutput_forward_def Intermediate_forward_def
  Output_forward_def gelu_def

lemma ex_one_layer:
  "LukeModel_forward (\<lambda>x. 0) example_base_one_layer (Some [[0]]) (Some [[0]]) (Some [[1]])
     (Some [[0]]) (Some [[[0]]]) (Some [[0]]) (Some [[0]]) True
   = Inr (AllLayers [([[[0]]], [[[0]]])], [[0]])"
  by (simp add: forward_defs2 example_base_one_layer_def example_model_def example_config_def
      example_layer_def example_attention_def)


text \<open>
  Claim C5. When \<open>LukeModel.forward\<close> returns, its encoded layers are those of the encoder
  run on the two embedding outputs with the mask \<open>ext\<close>: the word mask followed by the
  entity mask of each example, turned into \<open>(1 - m) * -10000\<close>, so that a position with
  mask one has the bias zero and a position with mask zero the bias \<open>-10000\<close>. The encoder
  hands \<open>ext\<close> to every layer, a layer hands the mask of an example to its attention, and
  there the probability of a key position is the exponential of its scaled score plus its
  bias over the sum of these exponentials over all key positions: the bias is added to the
  scores before the softmax.
\<close>

theorem LukeModel_forward_mask_bias:
  assumes "LukeModel_forward erf m (Some wi) ws (Some wm) (Some ei) (Some ep) es (Some em) all
             = Inr (enc, pooled)"
  shows "\<exists>ext we ee.
     LukeModel_attention_mask (Some wm) (Some em) = Inr ext \<and>
     length ext = length wm \<and> length em = length wm \<and>
     (\<forall>b<length ext.
        ext ! b = map (\<lambda>x. (1 - real_of_int x) * (- 10000)) (wm ! b @ em ! b)) \<and>
     (\<forall>b<length ext. \<forall>j<length (wm ! b @ em ! b).
        ((wm ! b @ em ! b) ! j = 1 \<longrightarrow> ext ! b ! j = 0) \<and>
        ((wm ! b @ em ! b) ! j = 0 \<longrightarrow> ext ! b ! j = - 10000)) \<and>
     WordEmbeddings_forward (lm_embeddings m) wi ws = Inr we \<and>
     EntityEmbeddings_forward (lm_entity_embeddings m) ei ep es = Inr ee \<and>
     enc = (if all then AllLayers (Encoder_forward erf (lm_encoder m) we ee ext True)
            else LastLayer (last (Encoder_forward erf (lm_encoder m) we ee ext False))) \<and>
     Encoder_forward erf (lm_encoder m) we ee ext True =
       map (\<lambda>k. foldl (\<lambda>(w, e) l. Layer_forward_batch erf l w e ext) (we, ee)
                  (take (Suc k) (lm_encoder m))) [0..<length (lm_encoder m)] \<and>
     Encoder_forward erf (lm_encoder m) we ee ext False =
       [foldl (\<lambda>(w, e) l. Layer_forward_batch erf l w e ext) (we, ee) (lm_encoder m)] \<and>
     (\<forall>l w e. \<forall>b<length ext. b < length w \<longrightarrow> b < length e \<longrightarrow>
        fst (Layer_forward_batch erf l w e ext) ! b
          = fst (Layer_forward erf l (w ! b) (e ! b) (ext ! b)) \<and>
        snd (Layer_forward_batch erf l w e ext) ! b
          = snd (Layer_forward erf l (w ! b) (e ! b) (ext ! b))) \<and>
     (\<forall>l w e a.
        Layer_forward erf l w e a =
          (let sa = att_self (ly_attention l);
               c = context_layer sa (w @ e) a;
               wo = SelfOutput_forward (att_output (ly_attention l)) (take (length w) c) w;
               eo = SelfOutput_forward (att_output (ly_attention l)) (drop (length w) c) e
           in (Output_forward (ly_output l) (Intermediate_forward erf (ly_intermediate l) wo) wo,
               Output_forward (ly_output l) (Intermediate_forward erf (ly_intermediate l) eo)
                 eo))) \<and>
     (\<forall>sa hs a. \<forall>i<length hs. length a = length hs \<longrightarrow>
        context_layer sa hs a ! i =
          concat (map (\<lambda>h. map (\<lambda>d. \<Sum>j<length hs.
                      attention_probs sa hs a ! h ! i ! j *
                      transpose_for_scores sa (map (Linear_forward (sa_value sa)) hs) ! h ! j ! d)
                    [0..<sa_attention_head_size sa])
             [0..<sa_num_attention_heads sa])) \<and>
     (\<forall>sa hs a. \<forall>h<sa_num_attention_heads sa. \<forall>i<length hs. \<forall>j<length hs.
        length a = length hs \<longrightarrow>
        attention_probs sa hs a ! h ! i ! j =
          exp (scaled_attention_scores sa hs ! h ! i ! j + a ! j) /
          (\<Sum>k<length hs. exp (scaled_attention_scores sa hs ! h ! i ! k + a ! k)))"
proof -
  from LukeModel_forward_parts[OF assms] obtain ext we ee where
    P: "LukeModel_attention_mask (Some wm) (Some em) = Inr ext"
      "WordEmbeddings_forward (lm_embeddings m) wi ws = Inr we"
      "EntityEmbeddings_forward (lm_entity_embeddings m) ei ep es = Inr ee"
      "enc = (if all then AllLayers (Encoder_forward erf (lm_encoder m) we ee ext True)
            else LastLayer (last (Encoder_forward erf (lm_encoder m) we ee ext False)))"
    by (elim exE conjE)
  note V = LukeModel_attention_mask_values[OF P(1)]
  have v1: "length ext = length wm" "length em = length wm" using V by simp_all
  have v2: "ext ! b = map (\<lambda>x. (1 - real_of_int x) * (- 10000)) (wm ! b @ em ! b)"
    if "b < length ext" for b using V that by blast
  have v3: "((wm ! b @ em ! b) ! j = 1 \<longrightarrow> ext ! b ! j = 0) \<and>
        ((wm ! b @ em ! b) ! j = 0 \<longrightarrow> ext ! b ! j = - 10000)"
    if "b < length ext" "j < length (wm ! b @ em ! b)" for b j using V that by blast
  have batch: "fst (Layer_forward_batch erf l w e ext) ! b
          = fst (Layer_forward erf l (w ! b) (e ! b) (ext ! b)) \<and>
        snd (Layer_forward_batch erf l w e ext) ! b
          = snd (Layer_forward erf l (w ! b) (e ! b) (ext ! b))"
    if "b < length ext" "b < length w" "b < length e" for l w e b
    using Layer_forward_batch_nth[OF that(2,3,1)] by simp
  have ctx: "context_layer sa hs a ! i =
          concat (map (\<lambda>h. map (\<lambda>d. \<Sum>j<length hs.
                      attention_probs sa hs a ! h ! i ! j *
                      transpose_for_scores sa (map (Linear_forward (sa_value sa)) hs) ! h ! j ! d)
                    [0..<sa_attention_head_size sa])
             [0..<sa_num_attention_heads sa])"
    if "i < length hs" "length a = length hs" for sa hs a i
    by (rule context_layer_nth[OF that])
  have probs: "attention_probs sa hs a ! h ! i ! j =
          exp (scaled_attention_scores sa hs ! h ! i ! j + a ! j) /
          (\<Sum>k<length hs. exp (scaled_attention_scores sa hs ! h ! i ! k + a ! k))"
    if "h < sa_num_attention_heads sa" "i < length hs" "j < length hs" "length a = length hs"
    for sa hs a h i j
    by (rule attention_probs_nth(2)[OF that])
  show ?thesis
    apply (rule exI[of _ ext], rule exI[of _ we], rule exI[of _ ee], intro conjI)
    subgoal by (rule P(1))
    subgoal by (rule v1(1))
    subgoal by (rule v1(2))
    subgoal using v2 by blast
    subgoal using v3 by blast
    subgoal by (rule P(2))
    subgoal by (rule P(3))
    subgoal by (rule P(4))
    subgoal by (rule Encoder_forward_eq(1))
    subgoal by (rule Encoder_forward_eq(2))
    subgoal using batch by blast
    subgoal using Layer_forward_unfold by blast
    subgoal using ctx by blast
    subgoal using probs by blast
    done
qed

text \<open>
  The theorem of claim C5 at the example model with one layer, on one word and one entity
  whose mask is zero.
\<close>

theorem LukeModel_forward_mask_bias_witness:
  "LukeModel_forward (\<lambda>x. 0) example_base_one_layer (Some [[0]]) (Some [[0]]) (Some [[1]])
     (Some [[0]]) (Some [[[0]]]) (Some [[0]]) (Some [[0]]) True
   = Inr (AllLayers [([[[0]]], [[[0]]])], [[0]]) \<and>
   LukeModel_attention_mask (Some [[1]]) (Some [[0]]) = Inr [[0, - 10000]] \<and>
   Encoder_forward (\<lambda>x. 0) (lm_encoder example_base_one_layer) [[[0]]] [[[0]]] [[0, - 10000]] True
     = [([[[0]]], [[[0]]])]"
proof -
  have mask: "LukeModel_attention_mask (Some [[1]]) (Some [[0]]) = Inr [[0, - 10000]]"
    by (simp add: LukeModel_attention_mask_def cat_dim1_def)
  have we: "WordEmbeddings_forward (lm_embeddings example_base_one_layer) [[0]] (Some [[0]])
      = Inr [[[0]]]"
    by (simp add: forward_defs2 example_base_one_layer_def example_model_def example_config_def)
  have ee: "EntityEmbeddings_forward (lm_entity_embeddings example_base_one_layer) [[0]] [[[0]]]
      (Some [[0]]) = Inr [[[0]]]"
    by (simp add: forward_defs2 example_base_one_layer_def example_model_def example_config_def)
  from LukeModel_forward_mask_bias[OF ex_one_layer]
  obtain ext we' ee' where
    "LukeModel_attention_mask (Some [[1]]) (Some [[0]]) = Inr ext"
    "WordEmbeddings_forward (lm_embeddings example_base_one_layer) [[0]] (Some [[0]]) = Inr we'"
    "EntityEmbeddings_forward (lm_entity_embeddings example_base_one_layer) [[0]] [[[0]]]
      (Some [[0]]) = Inr ee'"
    "AllLayers [([[[0]]], [[[0]]])] =
       (if True then AllLayers (Encoder_forward (\<lambda>x. 0) (lm_encoder example_base_one_layer)
                                  we' ee' ext True)
        else LastLayer (last (Encoder_forward (\<lambda>x. 0) (lm_encoder example_base_one_layer)
                                we' ee' ext False)))"
    by (elim exE conjE)
  then have "Encoder_forward (\<lambda>x. 0) (lm_encoder example_base_one_layer) [[[0]]] [[[0]]]
      [[0, - 10000]] True = [([[[0]]], [[[0]]])]"
    using mask we ee by simp
  with ex_one_layer mask show ?thesis by simp
qed

subsection \<open>Tied decoder weights\<close>

lemma length_cells_fill [simp]:
  "length (cells (fill_random rnd a st)) = length (cells st)"
  "length (cells (fill_constant c a st)) = length (cells st)"
  by (simp_all add: fill_random_def fill_constant_def)

lemma length_cells_init_weights [simp]:
  "length (cells (init_weights rnd m st)) = length (cells st)"
  by (cases m) (simp add: Let_def split: option.splits)

lemma length_cells_apply_init:
  "length (cells (apply_init rnd m st)) = length (cells st)"
  "length (cells (apply_init_children rnd cs st)) = length (cells st)"
  by (induction rnd m st and rnd cs st rule: apply_init_apply_init_children.induct)
    (simp_all del: init_weights.simps)

lemmas ctor_defs = Pooler_new_def WordEmbeddings_new_def EntityEmbeddings_new_def
  Embedding_new_def Linear_new_def LayerNorm_new_def Leaf_new_def alloc_random_def alloc_def
  BertPreTrainingHeads_new_def LMPredictionHead_new_def EntityPredictionHead_new_def
  PredictionHead_new_def PredictionHeadTransform_new_def Let_def

lemma LukeModel_new_embeddings:
  assumes "LukeModel_new rnd config st = (base, st1)"
  shows "\<exists>a c. get_parameter base [''embeddings'', ''word_embeddings''] ''weight'' = Some a \<and>
     get_parameter base [''entity_embeddings'', ''entity_embeddings''] ''weight'' = Some c \<and>
     a < length (cells st1) \<and> c < length (cells st1) \<and> a \<noteq> c \<and>
     (\<exists>cs. base = Module KOther [] cs \<and>
        map_of cs ''cls'' = None \<and> map_of cs ''entity_predictions'' = None)"
proof -
  obtain enc st0 where e: "Encoder_new rnd config st = (enc, st0)"
    by (cases "Encoder_new rnd config st")
  from assms e show ?thesis
    by (auto simp: LukeModel_new_def ctor_defs split: prod.splits if_splits)
qed


lemma get_parameter_append:
  "get_parameter (Module k ps cs) (c # path) n = Some a \<Longrightarrow>
     get_parameter (Module k ps (cs @ extra)) (c # path) n = Some a"
  by (auto simp: map_of_append split: option.splits)

lemma PredictionHead_new_shape:
  assumes "PredictionHead_new rnd config out a st = (phd, st')"
  shows "\<exists>b t. phd = Module KOther [(''bias'', Some b)]
            [(''transform'', t),
             (''decoder'', Module KLinear [(''weight'', Some a), (''bias'', None)] [])] \<and>
     length (cells st) \<le> b \<and> b < length (cells st')"
  using assms by (auto simp: ctor_defs split: prod.splits)

lemma BertPreTrainingHeads_new_shape:
  assumes "BertPreTrainingHeads_new rnd config a st = (cls, st')"
  shows "\<exists>b t l. cls = Module KOther []
            [(''predictions'', Module KOther [(''bias'', Some b)]
               [(''transform'', t),
                (''decoder'', Module KLinear [(''weight'', Some a), (''bias'', None)] [])]),
             (''seq_relationship'', l)] \<and>
     length (cells st) \<le> b \<and> b < length (cells st') \<and> length (cells st) \<le> length (cells st')"
proof -
  obtain phd st1 where h: "PredictionHead_new rnd config (hidden_size config) a st = (phd, st1)"
    by (cases "PredictionHead_new rnd config (hidden_size config) a st")
  from PredictionHead_new_shape[OF h] obtain b t where
    hd: "phd = Module KOther [(''bias'', Some b)]
            [(''transform'', t),
             (''decoder'', Module KLinear [(''weight'', Some a), (''bias'', None)] [])]"
    and b: "length (cells st) \<le> b" "b < length (cells st1)"
    by blast
  from assms h have "\<exists>l. cls = Module KOther [] [(''predictions'', phd), (''seq_relationship'', l)] \<and>
      length (cells st1) \<le> length (cells st')"
    by (auto simp: BertPreTrainingHeads_new_def LMPredictionHead_new_def Linear_new_def
        alloc_random_def alloc_def Let_def split: prod.splits)
  with hd b show ?thesis by auto
qed


text \<open>
  Claim C3. \<open>LukePretrainingModel.__init__\<close> returns, and in the model it returns, after
  \<open>self.apply(self.init_weights)\<close>, the weight of the decoder of the word prediction head
  is the parameter that is the weight of the word embedding, and the weight of the decoder
  of the entity prediction head is the parameter that is the weight of the entity
  embedding: an in-place write to the embedding weight is read back through the decoder
  weight. The decoders have no bias of their own; the bias of each head is another
  parameter, which a write to the embedding weight leaves as it was.
\<close>

theorem decoder_weights_are_tied:
  "\<exists>m st' a b c d.
     LukePretrainingModel_new rnd config st = Inr (m, st') \<and>
     get_parameter m [''embeddings'', ''word_embeddings''] ''weight'' = Some a \<and>
     get_parameter m [''cls'', ''predictions'', ''decoder''] ''weight'' = Some a \<and>
     get_parameter m [''cls'', ''predictions'', ''decoder''] ''bias'' = None \<and>
     get_parameter m [''cls'', ''predictions''] ''bias'' = Some b \<and>
     get_parameter m [''entity_embeddings'', ''entity_embeddings''] ''weight'' = Some c \<and>
     get_parameter m [''entity_predictions'', ''decoder''] ''weight'' = Some c \<and>
     get_parameter m [''entity_predictions'', ''decoder''] ''bias'' = None \<and>
     get_parameter m [''entity_predictions''] ''bias'' = Some d \<and>
     b \<noteq> a \<and> d \<noteq> c \<and> a \<noteq> c \<and>
     a < length (cells st') \<and> b < length (cells st') \<and>
     c < length (cells st') \<and> d < length (cells st') \<and>
     (\<forall>v. read_parameter
            (write_parameter st' m [''embeddings'', ''word_embeddings''] ''weight'' v)
            m [''cls'', ''predictions'', ''decoder''] ''weight'' = Some v) \<and>
     (\<forall>v. read_parameter
            (write_parameter st' m [''embeddings'', ''word_embeddings''] ''weight'' v)
            m [''cls'', ''predictions''] ''bias''
          = read_parameter st' m [''cls'', ''predictions''] ''bias'') \<and>
     (\<forall>v. read_parameter
            (write_parameter st' m [''entity_embeddings'', ''entity_embeddings''] ''weight'' v)
            m [''entity_predictions'', ''decoder''] ''weight'' = Some v) \<and>
     (\<forall>v. read_parameter
            (write_parameter st' m [''entity_embeddings'', ''entity_embeddings''] ''weight'' v)
            m [''entity_predictions''] ''bias''
          = read_parameter st' m [''entity_predictions''] ''bias'')"
proof -
  obtain base st1 where base: "LukeModel_new rnd config st = (base, st1)"
    by (cases "LukeModel_new rnd config st")
  from LukeModel_new_embeddings[OF base] obtain a c cs where
    ga: "get_parameter base [''embeddings'', ''word_embeddings''] ''weight'' = Some a"
    and gc: "get_parameter base [''entity_embeddings'', ''entity_embeddings''] ''weight'' = Some c"
    and a1: "a < length (cells st1)" and c1: "c < length (cells st1)" and ac: "a \<noteq> c"
    and bs: "base = Module KOther [] cs"
    and no: "map_of cs ''cls'' = None" "map_of cs ''entity_predictions'' = None"
    by blast
  obtain cls st2 where cls: "BertPreTrainingHeads_new rnd config a st1 = (cls, st2)"
    by (cases "BertPreTrainingHeads_new rnd config a st1")
  obtain ep st3 where ep: "EntityPredictionHead_new rnd config c st2 = (ep, st3)"
    by (cases "EntityPredictionHead_new rnd config c st2")
  from BertPreTrainingHeads_new_shape[OF cls] obtain b t l where
    clsd: "cls = Module KOther []
            [(''predictions'', Module KOther [(''bias'', Some b)]
               [(''transform'', t),
                (''decoder'', Module KLinear [(''weight'', Some a), (''bias'', None)] [])]),
             (''seq_relationship'', l)]"
    and b: "length (cells st1) \<le> b" "b < length (cells st2)"
    and s12: "length (cells st1) \<le> length (cells st2)"
    by blast
  from PredictionHead_new_shape[OF ep[unfolded EntityPredictionHead_new_def]] obtain d t' where
    epd: "ep = Module KOther [(''bias'', Some d)]
            [(''transform'', t'),
             (''decoder'', Module KLinear [(''weight'', Some c), (''bias'', None)] [])]"
    and d: "length (cells st2) \<le> d" "d < length (cells st3)"
    by blast
  define m where "m = Module KOther [] (cs @ [(''cls'', cls), (''entity_predictions'', ep)])"
  define st' where "st' = apply_init rnd m st3"
  have new: "LukePretrainingModel_new rnd config st = Inr (m, st')"
    using base ga gc cls ep by (simp add: LukePretrainingModel_new_def bs m_def st'_def)
  have len: "length (cells st') = length (cells st3)"
    by (simp add: st'_def length_cells_apply_init)
  have pa: "get_parameter m [''embeddings'', ''word_embeddings''] ''weight'' = Some a"
    unfolding m_def using ga[unfolded bs] by (rule get_parameter_append)
  have pc: "get_parameter m [''entity_embeddings'', ''entity_embeddings''] ''weight'' = Some c"
    unfolding m_def using gc[unfolded bs] by (rule get_parameter_append)
  have da: "get_parameter m [''cls'', ''predictions'', ''decoder''] ''weight'' = Some a"
    and dab: "get_parameter m [''cls'', ''predictions'', ''decoder''] ''bias'' = None"
    and pb: "get_parameter m [''cls'', ''predictions''] ''bias'' = Some b"
    using no by (simp_all add: m_def clsd map_of_append map_add_def)
  have dc: "get_parameter m [''entity_predictions'', ''decoder''] ''weight'' = Some c"
    and dcb: "get_parameter m [''entity_predictions'', ''decoder''] ''bias'' = None"
    and pd: "get_parameter m [''entity_predictions''] ''bias'' = Some d"
    using no by (simp_all add: m_def epd map_of_append map_add_def)
  have neq: "b \<noteq> a" "d \<noteq> c" using a1 c1 b d s12 by simp_all
  have bounds: "a < length (cells st')" "b < length (cells st')"
    "c < length (cells st')" "d < length (cells st')"
    using a1 c1 b d s12 len by simp_all
  have w1: "read_parameter
            (write_parameter st' m [''embeddings'', ''word_embeddings''] ''weight'' v)
            m [''cls'', ''predictions'', ''decoder''] ''weight'' = Some v" for v
    unfolding read_parameter_def write_parameter_def pa da using bounds by simp
  have w2: "read_parameter
            (write_parameter st' m [''embeddings'', ''word_embeddings''] ''weight'' v)
            m [''cls'', ''predictions''] ''bias''
          = read_parameter st' m [''cls'', ''predictions''] ''bias''" for v
    unfolding read_parameter_def write_parameter_def pa pb using neq by simp
  have w3: "read_parameter
            (write_parameter st' m [''entity_embeddings'', ''entity_embeddings''] ''weight'' v)
            m [''entity_predictions'', ''decoder''] ''weight'' = Some v" for v
    unfolding read_parameter_def write_parameter_def pc dc using bounds by simp
  have w4: "read_parameter
            (write_parameter st' m [''entity_embeddings'', ''entity_embeddings''] ''weight'' v)
            m [''entity_predictions''] ''bias''
          = read_parameter st' m [''entity_predictions''] ''bias''" for v
    unfolding read_parameter_def write_parameter_def pc pd using neq by simp
  show ?thesis
    apply (rule exI[of _ m], rule exI[of _ st'], rule exI[of _ a], rule exI[of _ b],
        rule exI[of _ c], rule exI[of _ d], intro conjI allI)
    using new pa da dab pb pc dc dcb pd neq ac bounds w1 w2 w3 w4
    by (simp_all del: get_parameter.simps)
qed

subsection \<open>The entity-free call of the evaluator\<close>

text \<open>
  The call \<open>LukeSentenceEmbedding.forward\<close> makes, with the three word arguments only, is
  a \<open>TypeError\<close> of \<open>LukeModel.forward\<close>, whose entity parameters have no default value;
  so is a call that passes \<open>None\<close> for the four entity arguments, at \<^verbatim>\<open>torch.cat\<close> of the
  two masks.
\<close>

lemma entity_free_call_raises:
  "LukeSentenceEmbedding_forward erf luke_model token_ids type_ids msk = Inl TypeError \<and>
   LukeModel_forward_call erf m
     \<lparr>kw_word_ids = Some (Some token_ids), kw_word_segment_ids = Some (Some type_ids),
      kw_word_attention_mask = Some (Some msk), kw_entity_ids = None,
      kw_entity_position_ids = None, kw_entity_segment_ids = None,
      kw_entity_attention_mask = None, kw_output_all_encoded_layers = None\<rparr> = Inl TypeError \<and>
   LukeModel_forward erf m (Some token_ids) (Some type_ids) (Some msk) None None None None
     output_all_encoded_layers = Inl TypeError"
  by (simp add: LukeSentenceEmbedding_forward_def LukeModel_forward_call_def
      LukeModel_forward_def LukeModel_attention_mask_def)

lemma Pooler_forward_Inr:
  assumes "Pooler_forward p ws = Inr pooled"
  shows "length pooled = length ws \<and>
    (\<forall>b<length pooled. ws ! b \<noteq> [] \<and>
       pooled ! b = map tanh (Linear_forward (po_dense p) (ws ! b ! 0)))"
proof -
  from traverse_nth[OF assms[unfolded Pooler_forward_def]]
  have l: "length pooled = length ws"
    and n: "\<forall>b<length ws. (case ws ! b of [] \<Rightarrow> Inl IndexError
               | x # _ \<Rightarrow> Inr (map tanh (Linear_forward (po_dense p) x))) = Inr (pooled ! b)"
    by simp_all
  have "ws ! b \<noteq> [] \<and> pooled ! b = map tanh (Linear_forward (po_dense p) (ws ! b ! 0))"
    if "b < length pooled" for b
  proof -
    from n that l have "(case ws ! b of [] \<Rightarrow> Inl IndexError
               | x # _ \<Rightarrow> Inr (map tanh (Linear_forward (po_dense p) x))) = Inr (pooled ! b)"
      by simp
    then show ?thesis by (cases "ws ! b") simp_all
  qed
  with l show ?thesis by blast
qed

lemma LukeModel_forward_Inr_args:
  assumes "LukeModel_forward erf m wi ws wm ei ep es em all = Inr (enc, pooled)"
  shows "\<exists>w a b c d. wi = Some w \<and> wm = Some a \<and> ei = Some b \<and> ep = Some c \<and> em = Some d"
proof -
  have wm: "wm \<noteq> None" "em \<noteq> None"
    using assms by (auto simp: LukeModel_forward_def LukeModel_attention_mask_def
        split: option.splits)
  then obtain a d where ad: "wm = Some a" "em = Some d" by auto
  have wi: "wi \<noteq> None"
    using assms ad by (auto simp: LukeModel_forward_def split: sum.splits option.splits)
  then obtain w where w: "wi = Some w" by auto
  have ei: "ei \<noteq> None"
    using assms ad w by (auto simp: LukeModel_forward_def split: sum.splits option.splits)
  then obtain b where b: "ei = Some b" by auto
  have "ep \<noteq> None"
    using assms ad w b by (auto simp: LukeModel_forward_def split: sum.splits option.splits)
  then obtain c where "ep = Some c" by auto
  with ad w b show ?thesis by blast
qed

lemma LukeModel_forward_Inr_pooled:
  assumes "LukeModel_forward erf m wi ws wm ei ep es em all = Inr (enc, pooled)"
  shows "\<exists>final. (if all then \<exists>ls. enc = AllLayers ls \<and> ls \<noteq> [] \<and> final = last ls
                   else enc = LastLayer final) \<and>
     Pooler_forward (lm_pooler m) (fst final) = Inr pooled"
proof -
  from LukeModel_forward_Inr_args[OF assms] obtain w a b c d where
    args: "wi = Some w" "wm = Some a" "ei = Some b" "ep = Some c" "em = Some d" by blast
  from LukeModel_forward_parts[OF assms[unfolded args]] obtain ext we ee where
    P: "LukeModel_attention_mask (Some a) (Some d) = Inr ext"
      "WordEmbeddings_forward (lm_embeddings m) w ws = Inr we"
      "EntityEmbeddings_forward (lm_entity_embeddings m) b c es = Inr ee"
    by blast
  let ?ls = "Encoder_forward erf (lm_encoder m) we ee ext all"
  from assms P have ne: "?ls \<noteq> []"
    and po: "Pooler_forward (lm_pooler m) (fst (last ?ls)) = Inr pooled"
    and enc: "enc = (if \<not> all then LastLayer (last ?ls) else AllLayers ?ls)"
    by (auto simp: LukeModel_forward_def args Let_def split: if_splits sum.splits)
  show ?thesis
    using ne po enc by (cases all) auto
qed


text \<open>
  Claim C6, as amended. \<open>LukeModel.forward\<close> cannot be invoked with the word arguments
  only: the call of the evaluator, which leaves the entity arguments out, and a call that
  passes \<open>None\<close> for them are a \<open>TypeError\<close>. Whenever the forward pass returns, the
  word ids, both masks, the entity ids and the entity position ids were given as tensors,
  and the result holds the encoded layers and one pooled vector per example, computed
  from the first position of the final word stream, which is not empty.
\<close>

theorem LukeModel_forward_requires_entities:
  "LukeModel_forward_call erf m
     \<lparr>kw_word_ids = Some (Some token_ids), kw_word_segment_ids = Some (Some type_ids),
      kw_word_attention_mask = Some (Some msk), kw_entity_ids = None,
      kw_entity_position_ids = None, kw_entity_segment_ids = None,
      kw_entity_attention_mask = None, kw_output_all_encoded_layers = None\<rparr> = Inl TypeError \<and>
   LukeModel_forward erf m (Some token_ids) (Some type_ids) (Some msk) None None None None
     output_all = Inl TypeError \<and>
   LukeSentenceEmbedding_forward erf luke_model token_ids type_ids msk = Inl TypeError \<and>
   (\<forall>wi ws wm ei ep es em all enc pooled.
      LukeModel_forward erf m wi ws wm ei ep es em all = Inr (enc, pooled) \<longrightarrow>
      (\<exists>w a b c d. wi = Some w \<and> wm = Some a \<and> ei = Some b \<and> ep = Some c \<and> em = Some d) \<and>
      (\<exists>final.
         (if all then \<exists>ls. enc = AllLayers ls \<and> ls \<noteq> [] \<and> final = last ls
          else enc = LastLayer final) \<and>
         length pooled = length (fst final) \<and>
         (\<forall>b<length pooled.
            fst final ! b \<noteq> [] \<and>
            pooled ! b = map tanh (Linear_forward (po_dense (lm_pooler m)) (fst final ! b ! 0)))))"
proof -
  have pos: "(\<exists>w a b c d. wi = Some w \<and> wm = Some a \<and> ei = Some b \<and> ep = Some c \<and> em = Some d) \<and>
      (\<exists>final.
         (if all then \<exists>ls. enc = AllLayers ls \<and> ls \<noteq> [] \<and> final = last ls
          else enc = LastLayer final) \<and>
         length pooled = length (fst final) \<and>
         (\<forall>b<length pooled.
            fst final ! b \<noteq> [] \<and>
            pooled ! b = map tanh (Linear_forward (po_dense (lm_pooler m)) (fst final ! b ! 0))))"
    if F: "LukeModel_forward erf m wi ws wm ei ep es em all = Inr (enc, pooled)"
    for wi ws wm ei ep es em all enc pooled
  proof -
    from LukeModel_forward_Inr_pooled[OF F] obtain final where
      fin: "if all then \<exists>ls. enc = AllLayers ls \<and> ls \<noteq> [] \<and> final = last ls
            else enc = LastLayer final"
      and po: "Pooler_forward (lm_pooler m) (fst final) = Inr pooled"
      by blast
    from Pooler_forward_Inr[OF po] fin LukeModel_forward_Inr_args[OF F]
    show ?thesis by blast
  qed
  show ?thesis
    using entity_free_call_raises[of erf luke_model token_ids type_ids msk m output_all] pos
    by blast
qed

text \<open>
  The theorem of claim C6 at the example model on one word and one entity.
\<close>

theorem LukeModel_forward_requires_entities_witness:
  "LukeModel_forward (\<lambda>x. 0) (pm_base example_model) (Some [[0]]) (Some [[0]]) (Some [[1]])
     (Some [[0]]) (Some [[[0]]]) (Some [[0]]) (Some [[1]]) False
   = Inr (LastLayer ([[[0]]], [[[0]]]), [[0]]) \<and>
   [[0 :: real]] ! 0 =
     map tanh (Linear_forward (po_dense (lm_pooler (pm_base example_model))) ([[[0]]] ! 0 ! 0))"
proof -
  from LukeModel_forward_requires_entities[of "\<lambda>x. 0" "pm_base example_model"] ex_base
  have "\<exists>final.
         (if False then \<exists>ls. LastLayer ([[[0]]], [[[0]]]) = AllLayers ls \<and> ls \<noteq> [] \<and> final = last ls
          else LastLayer ([[[0]]], [[[0]]]) = LastLayer final) \<and>
         length [[0 :: real]] = length (fst final) \<and>
         (\<forall>b<length [[0 :: real]].
            fst final ! b \<noteq> [] \<and>
            [[0 :: real]] ! b = map tanh (Linear_forward (po_dense (lm_pooler (pm_base example_model)))
                                 (fst final ! b ! 0)))"
    by blast
  then have "[[0 :: real]] ! 0 =
     map tanh (Linear_forward (po_dense (lm_pooler (pm_base example_model))) ([[[0]]] ! 0 ! 0))"
    by auto
  with ex_base show ?thesis by simp
qed

text \<open>
  Claim C6 as stated fails: on the example model the entity-free invocation of the
  evaluator does not return.
\<close>

theorem entity_free_invocation_counterexample:
  "LukeSentenceEmbedding_forward (\<lambda>x. 0) example_model [[0]] [[0]] [[1]] = Inl TypeError \<and>
   LukeModel_forward_call (\<lambda>x. 0) (pm_base example_model)
     \<lparr>kw_word_ids = Some (Some [[0]]), kw_word_segment_ids = Some (Some [[0]]),
      kw_word_attention_mask = Some (Some [[1]]), kw_entity_ids = None,
      kw_entity_position_ids = None, kw_entity_segment_ids = None,
      kw_entity_attention_mask = None, kw_output_all_encoded_layers = None\<rparr> = Inl TypeError"
  by (simp add: LukeSentenceEmbedding_forward_def LukeModel_forward_call_def)

end
